theory Spec2Isabelle
  imports Main "HOL-Library.Sublist"
begin

section \<open>JavaScript values\<close>

text \<open>
  The values the adapters handle at run time: what \<open>JSON.parse\<close> returns, plus
  \<open>undefined\<close> and the built-in members that every object inherits from
  \<open>Object.prototype\<close>. Numbers are the integers (the counts exchanged with the
  provider); \<open>JNative n\<close> is the built-in found under the inherited name \<open>n\<close>
  (a function object, or the prototype object itself for \<open>__proto__\<close>).
\<close>

datatype js =
    JUndefined
  | JNull
  | JBool bool
  | JNum int
  | JStr string
  | JArr "js list"
  | JObj "(string \<times> js) list"
  | JNative string

text \<open>JavaScript errors, by constructor, with their message.\<close>

datatype error = Error string | SyntaxError string | TypeError string

fun message :: "error \<Rightarrow> string" where
  "message (Error m) = m"
| "message (SyntaxError m) = m"
| "message (TypeError m) = m"

text \<open>Console output, one entry per call of \<open>console.log\<close>, \<open>warn\<close> or \<open>error\<close>.\<close>

datatype console = ConsoleLog string | ConsoleWarn string | ConsoleError string

text \<open>Truthiness, as \<open>||\<close> and \<open>!\<close> test it.\<close>

fun truthy :: "js \<Rightarrow> bool" where
  "truthy JUndefined = False"
| "truthy JNull = False"
| "truthy (JBool b) = b"
| "truthy (JNum n) = (n \<noteq> 0)"
| "truthy (JStr s) = (s \<noteq> [])"
| "truthy (JArr xs) = True"
| "truthy (JObj kvs) = True"
| "truthy (JNative n) = True"

definition orElse :: "js \<Rightarrow> js \<Rightarrow> js" where
  "orElse a b = (if truthy a then a else b)"

text \<open>The property names every ordinary object inherits from \<open>Object.prototype\<close>.\<close>

definition objectPrototypeKeys :: "string list" where
  "objectPrototypeKeys =
     [''constructor'', ''__defineGetter__'', ''__defineSetter__'', ''hasOwnProperty'',
      ''__lookupGetter__'', ''__lookupSetter__'', ''isPrototypeOf'',
      ''propertyIsEnumerable'', ''toString'', ''valueOf'', ''__proto__'',
      ''toLocaleString'']"

text \<open>
  \<open>obj[key]\<close> on an ordinary object with the own properties \<open>kvs\<close>: the own
  property if there is one, else the inherited member, else \<open>undefined\<close>.
\<close>

definition objectGet :: "(string \<times> js) list \<Rightarrow> string \<Rightarrow> js" where
  "objectGet kvs key =
     (case map_of kvs key of
        Some v \<Rightarrow> v
      | None \<Rightarrow> if key \<in> set objectPrototypeKeys then JNative key else JUndefined)"

section \<open>Education-level persona (OpenAIService.getEducationPrompt)\<close>

definition prompt_elementary :: string where
  "prompt_elementary = ''You are a child-friendly educational content creator. Create simple, engaging flashcards with basic vocabulary, visual descriptions, and encouraging language suitable for elementary school students (1st-5th grade).''"

definition prompt_middle :: string where
  "prompt_middle = ''You are an educational content creator for middle school students. Create flashcards that use age-appropriate vocabulary, clear explanations, and encourage critical thinking suitable for 6th-8th grade students.''"

definition prompt_high_school :: string where
  "prompt_high_school = ''You are an educational content creator for high school students. Create flashcards that use appropriate academic vocabulary, detailed explanations, and prepare students for standardized tests.''"

definition prompt_college :: string where
  "prompt_college = ''You are an educational content creator for college students. Create flashcards that use advanced academic vocabulary, complex concepts, and test deep understanding suitable for university-level studies.''"

definition prompt_competitive :: string where
  "prompt_competitive = ''You are an expert educational content creator for competitive exam preparation. Create flashcards with precise terminology, comprehensive explanations, and analytical questions suitable for exams like UPSC, GRE, etc.''"

text \<open>The object literal \<open>prompts\<close>.\<close>

definition prompts :: "(string \<times> js) list" where
  "prompts =
     [(''elementary'', JStr prompt_elementary),
      (''middle'', JStr prompt_middle),
      (''high_school'', JStr prompt_high_school),
      (''college'', JStr prompt_college),
      (''competitive'', JStr prompt_competitive)]"

text \<open>\<open>return prompts[educationLevel] || prompts.high_school\<close>\<close>

definition getEducationPrompt :: "string \<Rightarrow> js" where
  "getEducationPrompt educationLevel =
     orElse (objectGet prompts educationLevel) (objectGet prompts ''high_school'')"

section \<open>Provider selection (config/ai.config.ts, services/ai.service.ts)\<close>

datatype AIProvider = VERTEX_AI | GOOGLE_API_KEY | OPENAI | OPENROUTER

fun providerTag :: "AIProvider \<Rightarrow> string" where
  "providerTag VERTEX_AI = ''vertex-ai''"
| "providerTag GOOGLE_API_KEY = ''google-api-key''"
| "providerTag OPENAI = ''openai''"
| "providerTag OPENROUTER = ''openrouter''"

definition validProviders :: "AIProvider list" where
  "validProviders = [VERTEX_AI, GOOGLE_API_KEY, OPENAI, OPENROUTER]"

text \<open>
  \<open>String.prototype.toLowerCase\<close> on the characters a \<open>char\<close> can hold, the code
  points up to 0xFF: the letters A to Z and the capital letters 0xC0 to 0xDE of
  Latin-1 (0xD7, the multiplication sign, is none) move up by 0x20.
\<close>

definition upperCaseLetters :: string where
  "upperCaseLetters =
     ''ABCDEFGHIJKLMNOPQRSTUVWXYZ'' @
     [CHR 0xC0, CHR 0xC1, CHR 0xC2, CHR 0xC3, CHR 0xC4, CHR 0xC5, CHR 0xC6, CHR 0xC7,
      CHR 0xC8, CHR 0xC9, CHR 0xCA, CHR 0xCB, CHR 0xCC, CHR 0xCD, CHR 0xCE, CHR 0xCF,
      CHR 0xD0, CHR 0xD1, CHR 0xD2, CHR 0xD3, CHR 0xD4, CHR 0xD5, CHR 0xD6,
      CHR 0xD8, CHR 0xD9, CHR 0xDA, CHR 0xDB, CHR 0xDC, CHR 0xDD, CHR 0xDE]"

definition lowerCaseLetters :: string where
  "lowerCaseLetters =
     ''abcdefghijklmnopqrstuvwxyz'' @
     [CHR 0xE0, CHR 0xE1, CHR 0xE2, CHR 0xE3, CHR 0xE4, CHR 0xE5, CHR 0xE6, CHR 0xE7,
      CHR 0xE8, CHR 0xE9, CHR 0xEA, CHR 0xEB, CHR 0xEC, CHR 0xED, CHR 0xEE, CHR 0xEF,
      CHR 0xF0, CHR 0xF1, CHR 0xF2, CHR 0xF3, CHR 0xF4, CHR 0xF5, CHR 0xF6,
      CHR 0xF8, CHR 0xF9, CHR 0xFA, CHR 0xFB, CHR 0xFC, CHR 0xFD, CHR 0xFE]"

definition lowerChar :: "char \<Rightarrow> char" where
  "lowerChar c =
     (case map_of (zip upperCaseLetters lowerCaseLetters) c of
        Some l \<Rightarrow> l
      | None \<Rightarrow> c)"

definition toLowerCase :: "string \<Rightarrow> string" where
  "toLowerCase s = map lowerChar s"

text \<open>\<open>validProviders.join(", ")\<close>\<close>

fun joinWith :: "string \<Rightarrow> string list \<Rightarrow> string" where
  "joinWith sep [] = []"
| "joinWith sep [x] = x"
| "joinWith sep (x # y # ys) = x @ sep @ joinWith sep (y # ys)"

text \<open>
  \<open>getAIProvider\<close>, given the value of \<open>process.env.AI_PROVIDER\<close> (\<open>None\<close> when
  the variable is not set). It returns the provider and what it wrote to the console.
  The template literal prints an undefined value as \<open>undefined\<close>; the warning sign
  that opens the first message is left out.
\<close>

definition getAIProvider :: "string option \<Rightarrow> AIProvider \<times> console list" where
  "getAIProvider AI_PROVIDER =
     (let provider = map_option toLowerCase AI_PROVIDER in
      case (case provider of None \<Rightarrow> None
            | Some p \<Rightarrow> if p = [] then None
                        else find (\<lambda>v. providerTag v = p) validProviders) of
        None \<Rightarrow>
          (GOOGLE_API_KEY,
           [ConsoleWarn (''AI_PROVIDER not set or invalid (''
                         @ (case provider of None \<Rightarrow> ''undefined'' | Some p \<Rightarrow> p)
                         @ ''). Defaulting to 'openai'.''),
            ConsoleWarn (''   Valid options: ''
                         @ joinWith '', '' (map providerTag validProviders))])
      | Some v \<Rightarrow> (v, []))"

text \<open>
  \<open>getAIService\<close>. The module-level cell \<open>aiServiceInstance\<close> is passed in and
  returned; \<open>getService p\<close> is the outcome of the getter of provider \<open>p\<close>
  (\<open>getVertexAIService\<close>, \<open>getGoogleGeminiService\<close>, \<open>getOpenAIService\<close>,
  \<open>getOpenRouterService\<close>), which throws when its credentials are absent.
\<close>

definition getAIService ::
  "(AIProvider \<Rightarrow> error + 'svc) \<Rightarrow> string option \<Rightarrow> 'svc option
     \<Rightarrow> (error + 'svc) \<times> 'svc option \<times> console list" where
  "getAIService getService AI_PROVIDER aiServiceInstance =
     (case aiServiceInstance of
        Some inst \<Rightarrow> (Inr inst, aiServiceInstance, [])
      | None \<Rightarrow>
          (let (provider, warnings) = getAIProvider AI_PROVIDER;
               out = warnings @
                 [ConsoleLog (''Initializing AI Service with provider: '' @ providerTag provider)]
           in case getService provider of
                Inr inst \<Rightarrow>
                  (Inr inst, Some inst,
                   out @ [ConsoleLog (''AI Service initialized successfully with provider: ''
                                      @ providerTag provider)])
              | Inl e \<Rightarrow>
                  (Inl e, None,
                   out @ [ConsoleError (''Failed to initialize AI service with provider: ''
                                        @ providerTag provider)])))"

section \<open>Time values (ECMAScript Date, UTC)\<close>

text \<open>
  A \<open>Date\<close> is its time value: the milliseconds since 1970-01-01T00:00:00Z, with
  86400000 milliseconds in every day. \<open>Day\<close>, \<open>DaysInYear\<close>, \<open>DayFromYear\<close>,
  \<open>YearFromTime\<close>, \<open>InLeapYear\<close>, \<open>MonthFromTime\<close>, \<open>DateFromTime\<close>,
  \<open>MakeDay\<close> and \<open>MakeDate\<close> are the abstract operations of the language
  standard, which \<open>getUTCFullYear\<close>, \<open>getUTCMonth\<close>, \<open>getUTCDate\<close> and
  \<open>Date.UTC\<close> are defined by. Months count from 0.
\<close>

definition msPerDay :: int where "msPerDay = 86400000"

definition Day :: "int \<Rightarrow> int" where "Day t = t div msPerDay"

definition DaysInYear :: "int \<Rightarrow> int" where
  "DaysInYear y =
     (if y mod 4 \<noteq> 0 then 365 else if y mod 100 \<noteq> 0 then 366
      else if y mod 400 \<noteq> 0 then 365 else 366)"

definition DayFromYear :: "int \<Rightarrow> int" where
  "DayFromYear y =
     365 * (y - 1970) + (y - 1969) div 4 - (y - 1901) div 100 + (y - 1601) div 400"

text \<open>Each year begins after the one before: the search for the year ends.\<close>

lemma div_step:
  fixes a c :: int
  assumes "0 < c"
  shows "a div c \<le> (a + 1) div c"
  using assms by (simp add: zdiv_mono1)

lemma div_step_up:
  fixes a c :: int
  assumes "0 < c"
  shows "(a + 1) div c \<le> a div c + 1"
proof -
  have "(a + 1) div c \<le> (a + c) div c" using assms by (simp add: zdiv_mono1)
  also have "\<dots> = a div c + 1" using assms div_add_self2 [of c a] by simp
  finally show ?thesis .
qed

lemma DayFromYear_less: "DayFromYear y < DayFromYear (y + 1)"
proof -
  have a: "(y - 1969) div 4 \<le> (y - 1969 + 1) div 4" by (rule div_step) simp
  have b: "(y - 1901 + 1) div 100 \<le> (y - 1901) div 100 + 1" by (rule div_step_up) simp
  have c: "(y - 1601) div 400 \<le> (y - 1601 + 1) div 400" by (rule div_step) simp
  have e: "y + 1 - 1969 = y - 1969 + 1" "y + 1 - 1901 = y - 1901 + 1" "y + 1 - 1601 = y - 1601 + 1"
    by simp_all
  have lin: "\<And>a a' b b' c c' :: int. a \<le> a' \<Longrightarrow> b' \<le> b + 1 \<Longrightarrow> c \<le> c'
      \<Longrightarrow> 365 * (y - 1970) + a - b + c < 365 * (y + 1 - 1970) + a' - b' + c'"
    by arith
  show ?thesis unfolding DayFromYear_def e by (rule lin [OF a b c])
qed

text \<open>
  \<open>YearFromTime t\<close> is the largest \<open>y\<close> with \<open>DayFromYear y \<le> Day t\<close>: it is
  searched upwards from a year that is not after it.
\<close>

function yearFrom :: "int \<Rightarrow> int \<Rightarrow> int" where
  "yearFrom d y = (if DayFromYear (y + 1) \<le> d then yearFrom d (y + 1) else y)"
  by pat_completeness auto
termination
proof (relation "measure (\<lambda>(d, y). nat (d + 1 - DayFromYear (y + 1)))")
  show "wf (measure (\<lambda>(d, y). nat (d + 1 - DayFromYear (y + 1))))" by simp
next
  fix d y :: int
  assume "DayFromYear (y + 1) \<le> d"
  with DayFromYear_less [of "y + 1"]
  show "((d, y + 1), (d, y)) \<in> measure (\<lambda>(d, y). nat (d + 1 - DayFromYear (y + 1)))"
    by simp
qed

declare yearFrom.simps [simp del]

definition YearFromTime :: "int \<Rightarrow> int" where
  "YearFromTime t =
     (let d = Day t in
      yearFrom d (1970 + (if 0 \<le> d then d div 366 else d div 365 - 1)))"

definition InLeapYear :: "int \<Rightarrow> int" where
  "InLeapYear t = (if DaysInYear (YearFromTime t) = 366 then 1 else 0)"

definition DayWithinYear :: "int \<Rightarrow> int" where
  "DayWithinYear t = Day t - DayFromYear (YearFromTime t)"

definition MonthFromTime :: "int \<Rightarrow> int" where
  "MonthFromTime t =
     (let d = DayWithinYear t; L = InLeapYear t in
      if d < 31 then 0
      else if d < 59 + L then 1
      else if d < 90 + L then 2
      else if d < 120 + L then 3
      else if d < 151 + L then 4
      else if d < 181 + L then 5
      else if d < 212 + L then 6
      else if d < 243 + L then 7
      else if d < 273 + L then 8
      else if d < 304 + L then 9
      else if d < 334 + L then 10
      else 11)"

definition DateFromTime :: "int \<Rightarrow> int" where
  "DateFromTime t =
     (let d = DayWithinYear t; L = InLeapYear t; m = MonthFromTime t in
      if m = 0 then d + 1
      else if m = 1 then d - 30
      else if m = 2 then d - 58 - L
      else if m = 3 then d - 89 - L
      else if m = 4 then d - 119 - L
      else if m = 5 then d - 150 - L
      else if m = 6 then d - 180 - L
      else if m = 7 then d - 211 - L
      else if m = 8 then d - 242 - L
      else if m = 9 then d - 272 - L
      else if m = 10 then d - 303 - L
      else d - 333 - L)"

definition MakeDay :: "int \<Rightarrow> int \<Rightarrow> int \<Rightarrow> int" where
  "MakeDay year month date =
     (let ym = year + month div 12;
          mn = month mod 12;
          L = (if DaysInYear ym = 366 then 1 else 0);
          first =
            (if mn = 0 then 0
             else if mn = 1 then 31
             else if mn = 2 then 59 + L
             else if mn = 3 then 90 + L
             else if mn = 4 then 120 + L
             else if mn = 5 then 151 + L
             else if mn = 6 then 181 + L
             else if mn = 7 then 212 + L
             else if mn = 8 then 243 + L
             else if mn = 9 then 273 + L
             else if mn = 10 then 304 + L
             else 334 + L)
      in DayFromYear ym + first + date - 1)"

definition MakeDate :: "int \<Rightarrow> int \<Rightarrow> int" where
  "MakeDate day time = day * msPerDay + time"

text \<open>
  \<open>Date.UTC(year, month, date, 0, 0, 0, 0)\<close>; a year from 0 to 99 stands for
  1900 + year. The result is in the range of time values whenever the date comes from
  one, so the final clipping to that range is left out.
\<close>

definition Date_UTC :: "int \<Rightarrow> int \<Rightarrow> int \<Rightarrow> int" where
  "Date_UTC year month date =
     (let yr = (if 0 \<le> year \<and> year \<le> 99 then 1900 + year else year)
      in MakeDate (MakeDay yr month date) 0)"

text \<open>
  \<open>new Date(Date.UTC(now.getUTCFullYear(), now.getUTCMonth(), now.getUTCDate(), 0, 0, 0, 0))\<close>
\<close>

definition getStartOfTodayUTC :: "int \<Rightarrow> int" where
  "getStartOfTodayUTC now =
     Date_UTC (YearFromTime now) (MonthFromTime now) (DateFromTime now)"



section \<open>The data store\<close>

text \<open>
  The two tables the daily limits read, as the lists of their rows. \<open>createdAt\<close> is
  a time value. Of a study module only the columns the limits read are kept; a
  flashcard row keeps the \<open>data\<close> it was created from.
\<close>

record StudyModuleRow =
  sm_id :: string
  sm_userId :: string
  sm_isAIGenerated :: bool
  sm_createdAt :: int

text \<open>
  The \<open>data\<close> argument of \<open>prisma.flashcard.create\<close>. The last four fields are
  the ones only the study-module route supplies: \<open>None\<close> is a field left out.
\<close>

record FlashcardData =
  d_userId :: string
  d_question :: js
  d_answer :: js
  d_subject :: js
  d_difficultyLevel :: js
  d_educationLevel :: js
  d_moduleId :: "string option"
  d_questionType :: "js option"
  d_options :: "js option"
  d_isAIGenerated :: "bool option"

record FlashcardRow =
  fc_data :: FlashcardData
  fc_isAIGenerated :: bool
  fc_createdAt :: int

record store =
  studyModule :: "StudyModuleRow list"
  flashcard :: "FlashcardRow list"

text \<open>
  \<open>prisma.flashcard.create({data})\<close> at time \<open>now\<close>. The schema that declares the
  column \<open>isAIGenerated\<close> of flashcards is not part of the sources, so the value a row
  gets when \<open>data\<close> leaves the field out is the parameter \<open>columnDefault\<close>.
\<close>

definition flashcard_create :: "bool \<Rightarrow> int \<Rightarrow> FlashcardData \<Rightarrow> store \<Rightarrow> store" where
  "flashcard_create columnDefault now d db =
     db\<lparr>flashcard := flashcard db @
        [\<lparr>fc_data = d,
          fc_isAIGenerated = (case d_isAIGenerated d of None \<Rightarrow> columnDefault | Some b \<Rightarrow> b),
          fc_createdAt = now\<rparr>]\<rparr>"

text \<open>
  \<open>prisma.studyModule.count({where: {userId, createdAt: {gte}}})\<close>
\<close>

definition studyModule_count :: "store \<Rightarrow> string \<Rightarrow> int \<Rightarrow> nat" where
  "studyModule_count db userId gte =
     length (filter (\<lambda>m. sm_userId m = userId \<and> gte \<le> sm_createdAt m) (studyModule db))"

text \<open>The relation filter \<open>module: {isAIGenerated: true}\<close> on a flashcard row.\<close>

definition module_isAIGenerated :: "store \<Rightarrow> FlashcardRow \<Rightarrow> bool" where
  "module_isAIGenerated db c =
     (case d_moduleId (fc_data c) of
        None \<Rightarrow> False
      | Some mid \<Rightarrow>
          (case find (\<lambda>m. sm_id m = mid) (studyModule db) of
             None \<Rightarrow> False
           | Some m \<Rightarrow> sm_isAIGenerated m))"

text \<open>
  \<open>prisma.flashcard.count({where: {userId, createdAt: {gte},
     OR: [{isAIGenerated: true}, {module: {isAIGenerated: true}}]}})\<close>
\<close>

definition flashcard_count :: "store \<Rightarrow> string \<Rightarrow> int \<Rightarrow> nat" where
  "flashcard_count db userId gte =
     length (filter (\<lambda>c. d_userId (fc_data c) = userId \<and> gte \<le> fc_createdAt c
                          \<and> (fc_isAIGenerated c \<or> module_isAIGenerated db c))
               (flashcard db))"

section \<open>Daily limits (utils/rateLimit.ts)\<close>

definition STUDY_MODULES :: int where "STUDY_MODULES = 3"

definition AI_CARDS :: int where "AI_CARDS = 30"

record StudyModuleLimit =
  allowed :: bool
  currentCount :: int
  limit :: int
  remaining :: int

record AICardsLimit = StudyModuleLimit +
  requestedCount :: int

definition checkStudyModuleDailyLimit :: "store \<Rightarrow> int \<Rightarrow> string \<Rightarrow> StudyModuleLimit" where
  "checkStudyModuleDailyLimit db now userId =
     (let startOfToday = getStartOfTodayUTC now;
          count = int (studyModule_count db userId startOfToday);
          limit = STUDY_MODULES;
          allowed = (count < limit);
          remaining = max 0 (limit - count)
      in \<lparr>allowed = allowed, currentCount = count, limit = limit, remaining = remaining\<rparr>)"

definition checkAICardsDailyLimit :: "store \<Rightarrow> int \<Rightarrow> string \<Rightarrow> int \<Rightarrow> AICardsLimit" where
  "checkAICardsDailyLimit db now userId requested =
     (let startOfToday = getStartOfTodayUTC now;
          count = int (flashcard_count db userId startOfToday);
          limit = AI_CARDS;
          newTotal = count + requested;
          allowed = (newTotal \<le> limit);
          remaining = max 0 (limit - count)
      in \<lparr>allowed = allowed, currentCount = count, limit = limit, remaining = remaining,
          requestedCount = requested\<rparr>)"

section \<open>The adapter (services/openai.service.ts)\<close>

text \<open>
  The Vertex AI adapter repeats the code of the OpenAI adapter word for word, with the
  fence stripping written inline; one model stands for both.
\<close>

subsection \<open>Numbers that a computation can produce\<close>

text \<open>
  A division by \<open>topics.length\<close> can leave the integers when that length is 0:
  \<open>PosInf\<close> is \<open>Infinity\<close>.
\<close>

datatype jsnum = Fin int | PosInf | NaN

text \<open>\<open>Math.min(a, b)\<close>\<close>

fun jsMin :: "jsnum \<Rightarrow> jsnum \<Rightarrow> jsnum" where
  "jsMin NaN b = NaN"
| "jsMin a NaN = NaN"
| "jsMin PosInf b = b"
| "jsMin a PosInf = a"
| "jsMin (Fin a) (Fin b) = Fin (min a b)"

text \<open>\<open>x <= 0\<close>\<close>

fun leZero :: "jsnum \<Rightarrow> bool" where
  "leZero (Fin a) = (a \<le> 0)"
| "leZero PosInf = False"
| "leZero NaN = False"

text \<open>
  \<open>Math.max(2, Math.floor(totalCardsNeeded / modulePlan.topics.length))\<close>: with no
  topics the quotient is \<open>Infinity\<close>, \<open>NaN\<close> or \<open>-Infinity\<close>.
\<close>

definition cardsPerTopic :: "int \<Rightarrow> nat \<Rightarrow> jsnum" where
  "cardsPerTopic totalCardsNeeded topicCount =
     (if topicCount = 0
      then (if 0 < totalCardsNeeded then PosInf
            else if totalCardsNeeded = 0 then NaN else Fin 2)
      else Fin (max 2 (totalCardsNeeded div int topicCount)))"

text \<open>\<open>weekPlan.flashcardsCount || cardsPerTopic\<close>\<close>

fun countOr :: "int option \<Rightarrow> jsnum \<Rightarrow> jsnum" where
  "countOr (Some c) d = (if c \<noteq> 0 then Fin c else d)"
| "countOr None d = d"

text \<open>\<open>xs.slice(0, n)\<close>: a negative \<open>n\<close> counts from the end.\<close>

definition slice0 :: "int \<Rightarrow> 'a list \<Rightarrow> 'a list" where
  "slice0 n xs = (if 0 \<le> n then take (nat n) xs else take (nat (int (length xs) + n)) xs)"

subsection \<open>Requests to the provider\<close>

record GenerateFlashcardsOptions =
  o_content :: string
  o_subject :: "string option"
  o_educationLevel :: "string option"
  o_difficultyLevel :: "string option"
  o_numberOfCards :: "jsnum option"
  o_questionTypes :: "string list option"

record GenerateFlashcardsFromTopicOptions =
  t_topic :: string
  t_subject :: "string option"
  t_educationLevel :: "string option"
  t_difficultyLevel :: "string option"
  t_numberOfCards :: "jsnum option"
  t_questionTypes :: "string list option"

record GenerateStudyModuleOptions =
  m_topic :: string
  m_subject :: "string option"
  m_educationLevel :: "string option"
  m_difficultyLevel :: "string option"
  m_numberOfCards :: "int option"
  m_estimatedHours :: "int option"

text \<open>
  A prompt is the fixed text of its template with values put in; it is kept as those
  values, in the order of the template. For \<open>FlashcardsPrompt\<close>: the persona, the
  number of cards, the question types, subject, difficulty level, education level and
  content. For \<open>StudyModulePrompt\<close>: the persona, topic, subject, difficulty level,
  education level, the target number of cards and the estimated hours.
\<close>

datatype prompt =
    FlashcardsPrompt js jsnum "string list" string string string string
  | StudyModulePrompt js string string string string int int

text \<open>
  \<open>makeRequest\<close>: the provider answers a prompt with a text or an error; \<open>'w\<close> is
  whatever of the outside world its answers depend on.
\<close>

type_synonym 'w makeRequest = "prompt \<Rightarrow> 'w \<Rightarrow> (error + string) \<times> 'w"

subsection \<open>extractJSON\<close>

definition newline :: char where "newline = CHR 0x0A"

definition isWhiteSpace :: "char \<Rightarrow> bool" where
  "isWhiteSpace c \<longleftrightarrow>
     c \<in> set [CHR 0x09, CHR 0x0A, CHR 0x0B, CHR 0x0C, CHR 0x0D, CHR 0x20, CHR 0xA0]"

definition trim :: "string \<Rightarrow> string" where
  "trim s = rev (dropWhile isWhiteSpace (rev (dropWhile isWhiteSpace s)))"

text \<open>The optional newline that ends both fence patterns.\<close>

fun dropNewline :: "string \<Rightarrow> string" where
  "dropNewline [] = []"
| "dropNewline (c # cs) = (if c = newline then cs else c # cs)"

lemma length_dropNewline: "length (dropNewline s) \<le> length s"
  by (cases s) simp_all

text \<open>
  \<open>s.replace(/pat\n?/g, '')\<close> for a literal, non-empty \<open>pat\<close>: every occurrence,
  found from left to right, is removed together with a newline that follows it.
\<close>

function removeAll :: "string \<Rightarrow> string \<Rightarrow> string" where
  "removeAll pat [] = []"
| "removeAll pat (c # cs) =
     (if pat \<noteq> [] \<and> prefix pat (c # cs)
      then removeAll pat (dropNewline (drop (length pat) (c # cs)))
      else c # removeAll pat cs)"
  by pat_completeness auto
termination
proof (relation "measure (\<lambda>(pat, s). length s)")
  show "wf (measure (\<lambda>(pat, s). length s))" by simp
next
  fix pat :: string and c cs
  assume "pat \<noteq> [] \<and> prefix pat (c # cs)"
  then have "0 < length pat" by simp
  then have "length (drop (length pat) (c # cs)) < length (c # cs)" by simp
  with length_dropNewline [of "drop (length pat) (c # cs)"]
  show "((pat, dropNewline (drop (length pat) (c # cs))), (pat, c # cs))
          \<in> measure (\<lambda>(pat, s). length s)"
    by simp
next
  fix pat :: string and c cs
  show "((pat, cs), (pat, c # cs)) \<in> measure (\<lambda>(pat, s). length s)" by simp
qed

declare removeAll.simps [simp del]

text \<open>
  \<open>s.replace(/```\n?$/g, '')\<close>: a fence, with or without a newline after it, is
  removed where the text ends with it.
\<close>

fun removeTrailingFence :: "string \<Rightarrow> string" where
  "removeTrailingFence [] = []"
| "removeTrailingFence (c # cs) =
     (if c # cs = ''```'' \<or> c # cs = ''```'' @ [newline] then []
      else c # removeTrailingFence cs)"

text \<open>The text that \<open>extractJSON\<close> hands to \<open>JSON.parse\<close>.\<close>

definition stripCodeFence :: "string \<Rightarrow> string" where
  "stripCodeFence text =
     (let jsonText = trim text in
      if prefix ''```json'' jsonText
      then removeTrailingFence (removeAll ''```json'' jsonText)
      else if prefix ''```'' jsonText
      then removeAll ''```'' jsonText
      else jsonText)"

text \<open>
  \<open>JSON.parse\<close> belongs to the runtime: it is the parameter \<open>JSON_parse\<close>, which
  returns the value or the \<open>SyntaxError\<close> it throws.
\<close>

definition extractJSON :: "(string \<Rightarrow> error + js) \<Rightarrow> string \<Rightarrow> error + js" where
  "extractJSON JSON_parse text = JSON_parse (stripCodeFence text)"

subsection \<open>generateFlashcards\<close>

text \<open>
  A card as the adapter returns it. The fields hold whatever the provider sent;
  \<open>JUndefined\<close> in \<open>options\<close> is the field left out.
\<close>

record Flashcard =
  question :: js
  answer :: js
  questionType :: js
  difficultyLevel :: js
  options :: js

text \<open>
  \<open>card.name\<close>, for the five names the adapter reads: reading a property of
  \<open>null\<close> or \<open>undefined\<close> throws, and a value that is not an object has no own
  property of these names.
\<close>

fun getProp :: "js \<Rightarrow> string \<Rightarrow> error + js" where
  "getProp JNull key =
     Inl (TypeError (''Cannot read properties of null (reading '' @ [CHR 0x27] @ key
                     @ [CHR 0x27] @ '')''))"
| "getProp JUndefined key =
     Inl (TypeError (''Cannot read properties of undefined (reading '' @ [CHR 0x27] @ key
                     @ [CHR 0x27] @ '')''))"
| "getProp (JObj kvs) key = Inr (objectGet kvs key)"
| "getProp v key = Inr (objectGet [] key)"

text \<open>The callback of \<open>flashcards.map\<close>, applied to the card \<open>c\<close>.\<close>

definition normalizeCard :: "string \<Rightarrow> js \<Rightarrow> error + Flashcard" where
  "normalizeCard difficulty c =
     (case getProp c ''question'' of Inl e \<Rightarrow> Inl e | Inr q \<Rightarrow>
      case getProp c ''answer'' of Inl e \<Rightarrow> Inl e | Inr a \<Rightarrow>
      case getProp c ''questionType'' of Inl e \<Rightarrow> Inl e | Inr t \<Rightarrow>
      case getProp c ''difficultyLevel'' of Inl e \<Rightarrow> Inl e | Inr d \<Rightarrow>
      case getProp c ''options'' of Inl e \<Rightarrow> Inl e | Inr os \<Rightarrow>
        Inr \<lparr>question = orElse q (JStr []),
             answer = orElse a (JStr []),
             questionType = orElse t (JStr ''short_answer''),
             difficultyLevel = orElse d (JStr difficulty),
             options = orElse os JUndefined\<rparr>)"

text \<open>\<open>xs.map(f)\<close> for a callback that can throw: the first throw ends it.\<close>

fun mapThrowing :: "('a \<Rightarrow> error + 'b) \<Rightarrow> 'a list \<Rightarrow> error + 'b list" where
  "mapThrowing f [] = Inr []"
| "mapThrowing f (x # xs) =
     (case f x of
        Inl e \<Rightarrow> Inl e
      | Inr y \<Rightarrow> (case mapThrowing f xs of Inl e \<Rightarrow> Inl e | Inr ys \<Rightarrow> Inr (y # ys)))"

definition defaultTo :: "'a \<Rightarrow> 'a option \<Rightarrow> 'a" where
  "defaultTo d x = (case x of None \<Rightarrow> d | Some v \<Rightarrow> v)"

definition defaultQuestionTypes :: "string list" where
  "defaultQuestionTypes = [''multiple_choice'', ''true_false'', ''short_answer'']"

text \<open>The prompt \<open>generateFlashcards\<close> sends.\<close>

definition flashcardsPrompt :: "GenerateFlashcardsOptions \<Rightarrow> prompt" where
  "flashcardsPrompt opts =
     (let subject = defaultTo ''General'' (o_subject opts);
          educationLevel = defaultTo ''high_school'' (o_educationLevel opts);
          difficulty = defaultTo ''intermediate'' (o_difficultyLevel opts);
          numberOfCards = defaultTo (Fin 5) (o_numberOfCards opts);
          questionTypes = defaultTo defaultQuestionTypes (o_questionTypes opts);
          systemPrompt = getEducationPrompt educationLevel
      in FlashcardsPrompt systemPrompt numberOfCards questionTypes subject difficulty
           educationLevel (o_content opts))"

text \<open>
  \<open>generateFlashcards\<close> returns the cards or the error it throws, the world after the
  request, and its console output.
\<close>

definition generateFlashcards ::
  "(string \<Rightarrow> error + js) \<Rightarrow> 'w makeRequest \<Rightarrow> GenerateFlashcardsOptions \<Rightarrow> 'w
     \<Rightarrow> (error + Flashcard list) \<times> 'w \<times> console list" where
  "generateFlashcards JSON_parse makeRequest opts w =
     (let difficulty = defaultTo ''intermediate'' (o_difficultyLevel opts);
          (response, w') = makeRequest (flashcardsPrompt opts) w;
          attempt =
            (case response of
               Inl e \<Rightarrow> Inl e
             | Inr responseText \<Rightarrow>
                 (case extractJSON JSON_parse responseText of
                    Inl e \<Rightarrow> Inl e
                  | Inr (JArr flashcards) \<Rightarrow> mapThrowing (normalizeCard difficulty) flashcards
                  | Inr other \<Rightarrow> Inl (Error ''AI response is not an array'')))
      in case attempt of
           Inl e \<Rightarrow>
             (Inl (Error (''Failed to generate flashcards: '' @ message e)), w',
              [ConsoleError (''Error generating flashcards with OpenAI: '' @ message e)])
         | Inr cards \<Rightarrow> (Inr cards, w', []))"

definition generateFlashcardsFromTopic ::
  "(string \<Rightarrow> error + js) \<Rightarrow> 'w makeRequest \<Rightarrow> GenerateFlashcardsFromTopicOptions \<Rightarrow> 'w
     \<Rightarrow> (error + Flashcard list) \<times> 'w \<times> console list" where
  "generateFlashcardsFromTopic JSON_parse makeRequest opts w =
     generateFlashcards JSON_parse makeRequest
       \<lparr>o_content = ''Create flashcards about the topic: '' @ t_topic opts,
        o_subject = Some (defaultTo ''General'' (t_subject opts)),
        o_educationLevel = Some (defaultTo ''high_school'' (t_educationLevel opts)),
        o_difficultyLevel = Some (defaultTo ''intermediate'' (t_difficultyLevel opts)),
        o_numberOfCards = Some (defaultTo (Fin 10) (t_numberOfCards opts)),
        o_questionTypes = Some (defaultTo defaultQuestionTypes (t_questionTypes opts))\<rparr>
       w"

subsection \<open>generateStudyModule\<close>

record LearningPlanEntry =
  week :: int
  topic :: string
  description :: string
  flashcardsCount :: "int option"

text \<open>
  The plan as the adapter reads it off the provider's answer: \<open>None\<close> is a field the
  answer does not have.
\<close>

record StudyModulePlan =
  title :: "string option"
  plan_description :: "string option"
  topics :: "string list option"
  learningPlan :: "LearningPlanEntry list option"
  estimatedHours :: "int option"

record StudyModuleWithFlashcards =
  module :: StudyModulePlan
  flashcards :: "Flashcard list"

text \<open>
  \<open>this.generateFlashcards\<close>, as the orchestration sees it, and a call of it with
  what it returned.
\<close>

type_synonym 'w generator =
  "GenerateFlashcardsOptions \<Rightarrow> 'w \<Rightarrow> (error + Flashcard list) \<times> 'w \<times> console list"

type_synonym call = "GenerateFlashcardsOptions \<times> (error + Flashcard list)"

text \<open>
  The loop over \<open>modulePlan.learningPlan\<close>, from the entry it has reached. It
  returns \<open>allFlashcards\<close>, the world, the calls it made and the console output.
  \<open>base\<close> holds the options every call shares.
\<close>

fun cardFill ::
  "'w generator \<Rightarrow> GenerateFlashcardsOptions \<Rightarrow> int \<Rightarrow> jsnum \<Rightarrow> LearningPlanEntry list
     \<Rightarrow> Flashcard list \<Rightarrow> 'w \<Rightarrow> Flashcard list \<times> 'w \<times> call list \<times> console list" where
  "cardFill gen base totalCardsNeeded perTopic [] allFlashcards w = (allFlashcards, w, [], [])"
| "cardFill gen base totalCardsNeeded perTopic (weekPlan # rest) allFlashcards w =
     (let cardsForThisTopic =
            jsMin (countOr (flashcardsCount weekPlan) perTopic)
                  (Fin (totalCardsNeeded - int (length allFlashcards)))
      in if leZero cardsForThisTopic then (allFlashcards, w, [], [])
         else
           (let request =
                  base\<lparr>o_content := ''Topic: '' @ topic weekPlan @ ''. '' @ description weekPlan,
                       o_numberOfCards := Some cardsForThisTopic\<rparr>
            in case gen request w of
                 (Inr topicFlashcards, w', out) \<Rightarrow>
                   (case cardFill gen base totalCardsNeeded perTopic rest
                           (allFlashcards @ topicFlashcards) w' of
                      (all', w'', calls, out') \<Rightarrow>
                        (all', w'', (request, Inr topicFlashcards) # calls, out @ out'))
               | (Inl e, w', out) \<Rightarrow>
                   (case cardFill gen base totalCardsNeeded perTopic rest allFlashcards w' of
                      (all', w'', calls, out') \<Rightarrow>
                        (all', w'', (request, Inl e) # calls,
                         out @ [ConsoleError (''Error generating flashcards for topic ''
                                              @ topic weekPlan @ '': '' @ message e)] @ out'))))"

text \<open>The one further call when cards are still missing.\<close>

definition backfill ::
  "'w generator \<Rightarrow> GenerateFlashcardsOptions \<Rightarrow> string \<Rightarrow> int \<Rightarrow> Flashcard list \<Rightarrow> 'w
     \<Rightarrow> Flashcard list \<times> 'w \<times> call list \<times> console list" where
  "backfill gen base topicName totalCardsNeeded allFlashcards w =
     (if int (length allFlashcards) < totalCardsNeeded
      then
        (let remainingCards = totalCardsNeeded - int (length allFlashcards);
             request = base\<lparr>o_content := ''General questions about '' @ topicName,
                            o_numberOfCards := Some (Fin remainingCards)\<rparr>
         in case gen request w of
              (Inr additionalFlashcards, w', out) \<Rightarrow>
                (allFlashcards @ additionalFlashcards, w',
                 [(request, Inr additionalFlashcards)], out)
            | (Inl e, w', out) \<Rightarrow>
                (allFlashcards, w', [(request, Inl e)],
                 out @ [ConsoleError (''Error generating additional flashcards: '' @ message e)]))
      else (allFlashcards, w, [], []))"

text \<open>\<open>estimatedHours || Math.ceil(numberOfCards / 5)\<close>\<close>

definition hoursOrDefault :: "int option \<Rightarrow> int \<Rightarrow> int" where
  "hoursOrDefault hours numberOfCards =
     (case hours of
        Some h \<Rightarrow> if h \<noteq> 0 then h else - ((- numberOfCards) div 5)
      | None \<Rightarrow> - ((- numberOfCards) div 5))"

definition studyModulePrompt :: "GenerateStudyModuleOptions \<Rightarrow> prompt" where
  "studyModulePrompt opts =
     (let subject = defaultTo ''General'' (m_subject opts);
          educationLevel = defaultTo ''high_school'' (m_educationLevel opts);
          difficulty = defaultTo ''intermediate'' (m_difficultyLevel opts);
          numberOfCards = defaultTo 20 (m_numberOfCards opts)
      in StudyModulePrompt (getEducationPrompt educationLevel) (m_topic opts) subject difficulty
           educationLevel numberOfCards (hoursOrDefault (m_estimatedHours opts) numberOfCards))"

text \<open>The options that every card request of a module shares.\<close>

definition cardRequestBase :: "GenerateStudyModuleOptions \<Rightarrow> GenerateFlashcardsOptions" where
  "cardRequestBase opts =
     \<lparr>o_content = [],
      o_subject = Some (defaultTo ''General'' (m_subject opts)),
      o_educationLevel = Some (defaultTo ''high_school'' (m_educationLevel opts)),
      o_difficultyLevel = Some (defaultTo ''intermediate'' (m_difficultyLevel opts)),
      o_numberOfCards = None,
      o_questionTypes = Some defaultQuestionTypes\<rparr>"

text \<open>What the outer \<open>catch\<close> does with an error.\<close>

definition moduleFailure ::
  "error \<Rightarrow> 'w \<Rightarrow> (error + StudyModuleWithFlashcards) \<times> 'w \<times> call list \<times> console list" where
  "moduleFailure e w =
     (Inl (Error (''Failed to generate study module: '' @ message e)), w, [],
      [ConsoleError (''Error generating study module with OpenAI: '' @ message e)])"

text \<open>
  \<open>generateStudyModule\<close>, with \<open>this.generateFlashcards\<close> as the parameter \<open>gen\<close>.
  \<open>parsePlan\<close> is \<open>JSON.parse\<close> read at the type \<open>StudyModulePlan\<close>, which the
  adapter casts its value to.
\<close>

definition generateStudyModuleWith ::
  "'w generator \<Rightarrow> (string \<Rightarrow> error + StudyModulePlan) \<Rightarrow> 'w makeRequest
     \<Rightarrow> GenerateStudyModuleOptions \<Rightarrow> 'w
     \<Rightarrow> (error + StudyModuleWithFlashcards) \<times> 'w \<times> call list \<times> console list" where
  "generateStudyModuleWith gen parsePlan makeRequest opts w =
     (let numberOfCards = defaultTo 20 (m_numberOfCards opts) in
      case makeRequest (studyModulePrompt opts) w of
        (Inl e, w1) \<Rightarrow> moduleFailure e w1
      | (Inr moduleResponseText, w1) \<Rightarrow>
          (case parsePlan (stripCodeFence moduleResponseText) of
             Inl e \<Rightarrow> moduleFailure e w1
           | Inr modulePlan \<Rightarrow>
               (case (title modulePlan, topics modulePlan, learningPlan modulePlan) of
                  (Some t, Some tps, Some plan) \<Rightarrow>
                    if t = [] then moduleFailure (Error ''Invalid study module structure from AI'') w1
                    else
                      (let totalCardsNeeded = numberOfCards;
                           perTopic = cardsPerTopic totalCardsNeeded (length tps)
                       in case cardFill gen (cardRequestBase opts) totalCardsNeeded perTopic
                                 plan [] w1 of
                            (all1, w2, calls1, out1) \<Rightarrow>
                              (case backfill gen (cardRequestBase opts) (m_topic opts)
                                      totalCardsNeeded all1 w2 of
                                 (all2, w3, calls2, out2) \<Rightarrow>
                                   (Inr \<lparr>module = modulePlan,
                                         flashcards = slice0 totalCardsNeeded all2\<rparr>,
                                    w3, calls1 @ calls2, out1 @ out2)))
                | other \<Rightarrow> moduleFailure (Error ''Invalid study module structure from AI'') w1)))"

definition generateStudyModule ::
  "(string \<Rightarrow> error + js) \<Rightarrow> (string \<Rightarrow> error + StudyModulePlan) \<Rightarrow> 'w makeRequest
     \<Rightarrow> GenerateStudyModuleOptions \<Rightarrow> 'w
     \<Rightarrow> (error + StudyModuleWithFlashcards) \<times> 'w \<times> call list \<times> console list" where
  "generateStudyModule JSON_parse parsePlan makeRequest opts w =
     generateStudyModuleWith (generateFlashcards JSON_parse makeRequest) parsePlan makeRequest
       opts w"

subsection \<open>The card-fill rule, in the words of the specification\<close>







text \<open>
  A provider that answers every prompt with the same text, and a \<open>JSON.parse\<close> that
  is right on one document and rejects every other text: enough to run the adapter on
  that document.
\<close>

definition respond :: "string \<Rightarrow> unit makeRequest" where
  "respond text = (\<lambda>p w. (Inr text, w))"

definition parseAs :: "string \<Rightarrow> js \<Rightarrow> string \<Rightarrow> error + js" where
  "parseAs doc v = (\<lambda>s. if s = doc then Inr v else Inl (SyntaxError ''Unexpected token''))"

definition plainOptions :: GenerateFlashcardsOptions where
  "plainOptions =
     \<lparr>o_content = ''Photosynthesis'', o_subject = None, o_educationLevel = None,
      o_difficultyLevel = None, o_numberOfCards = None, o_questionTypes = None\<rparr>"

definition emptyCard :: Flashcard where
  "emptyCard =
     \<lparr>question = JStr [], answer = JStr [], questionType = JStr ''short_answer'',
      difficultyLevel = JStr ''intermediate'', options = JUndefined\<rparr>"

definition mcDoc :: string where
  "mcDoc = ''[{\"questionType\":\"multiple_choice\"}]''"

definition mcValue :: js where
  "mcValue = JArr [JObj [(''questionType'', JStr ''multiple_choice'')]]"

definition twoOptionsDoc :: string where
  "twoOptionsDoc = ''[{\"questionType\":\"true_false\",\"options\":[\"True\",\"False\"]}]''"

definition twoOptionsValue :: js where
  "twoOptionsValue =
     JArr [JObj [(''questionType'', JStr ''true_false''),
                 (''options'', JArr [JStr ''True'', JStr ''False''])]]"







text \<open>
  Stored data for the examples: one study module of user \<open>u1\<close>, created on
  2025-11-02 at 12:00:00 UTC, or on 2025-11-03 at 12:00:00 UTC.
\<close>

definition exampleStore :: store where
  "exampleStore =
     \<lparr>studyModule =
        [\<lparr>sm_id = ''m1'', sm_userId = ''u1'', sm_isAIGenerated = True,
          sm_createdAt = 1762084800000\<rparr>],
      flashcard = []\<rparr>"

text \<open>
  On 2025-11-03: a generated module and a hand-made one, and five cards of one user.
  The first is flagged, the second belongs to the generated module, the third to the
  hand-made one, the fourth to none, and the fifth is flagged but from the day before.
\<close>

definition plainCard :: FlashcardData where
  "plainCard =
     \<lparr>d_userId = ''u1'', d_question = JStr ''Q'', d_answer = JStr ''A'', d_subject = JNull,
      d_difficultyLevel = JNull, d_educationLevel = JNull, d_moduleId = None,
      d_questionType = None, d_options = None, d_isAIGenerated = None\<rparr>"

definition mixedStore :: store where
  "mixedStore =
     \<lparr>studyModule =
        [\<lparr>sm_id = ''m1'', sm_userId = ''u1'', sm_isAIGenerated = True,
          sm_createdAt = 1762171200000\<rparr>,
         \<lparr>sm_id = ''m2'', sm_userId = ''u1'', sm_isAIGenerated = False,
          sm_createdAt = 1762084800000\<rparr>],
      flashcard =
        [\<lparr>fc_data = plainCard, fc_isAIGenerated = True, fc_createdAt = 1762171200000\<rparr>,
         \<lparr>fc_data = plainCard\<lparr>d_moduleId := Some ''m1''\<rparr>, fc_isAIGenerated = False,
          fc_createdAt = 1762171200000\<rparr>,
         \<lparr>fc_data = plainCard\<lparr>d_moduleId := Some ''m2''\<rparr>, fc_isAIGenerated = False,
          fc_createdAt = 1762171200000\<rparr>,
         \<lparr>fc_data = plainCard, fc_isAIGenerated = False, fc_createdAt = 1762171200000\<rparr>,
         \<lparr>fc_data = plainCard, fc_isAIGenerated = True, fc_createdAt = 1762084800000\<rparr>]\<rparr>"

definition busyStore :: store where
  "busyStore =
     \<lparr>studyModule =
        [\<lparr>sm_id = ''m1'', sm_userId = ''u1'', sm_isAIGenerated = True,
          sm_createdAt = 1762171200000\<rparr>],
      flashcard = []\<rparr>"

section \<open>The AI flashcard routes (routes/flashcards-ai.ts)\<close>

text \<open>
  The fields of \<open>req.body\<close> that the two handlers read. \<open>content\<close> and \<open>topic\<close>,
  which the handlers type-check themselves, are any JSON value (\<open>JUndefined\<close> when
  absent); the other fields are taken at the types the options of the AI service
  declare, \<open>None\<close> when absent.
\<close>

record RequestBody =
  b_content :: js
  b_topic :: js
  b_subject :: "string option"
  b_educationLevel :: "string option"
  b_difficultyLevel :: "string option"
  b_numberOfCards :: "int option"
  b_questionTypes :: "string list option"

text \<open>\<open>x || undefined\<close> on an optional string: the empty string is falsy.\<close>

definition orUndefined :: "string option \<Rightarrow> string option" where
  "orUndefined x = (case x of None \<Rightarrow> None | Some s \<Rightarrow> if s = [] then None else Some s)"

text \<open>\<open>x || null\<close> and plain \<open>x\<close> on an optional string, as JavaScript values.\<close>

definition orNull :: "string option \<Rightarrow> js" where
  "orNull x = (case orUndefined x of None \<Rightarrow> JNull | Some s \<Rightarrow> JStr s)"

definition optionalString :: "string option \<Rightarrow> js" where
  "optionalString x = (case x of None \<Rightarrow> JUndefined | Some s \<Rightarrow> JStr s)"

text \<open>
  \<open>numberOfCards = d\<close> in the destructuring and \<open>numberOfCards || d\<close> in the options:
  an absent and a zero number both give the default.
\<close>

definition numberOr :: "int \<Rightarrow> int option \<Rightarrow> int" where
  "numberOr d x = (case x of None \<Rightarrow> d | Some n \<Rightarrow> if n = 0 then d else n)"

text \<open>
  The \<open>data\<close> both handlers pass to \<open>prisma.flashcard.create\<close> for a generated card:
  \<open>userId\<close>, \<open>question\<close>, \<open>answer\<close>, \<open>subject\<close>, \<open>difficultyLevel\<close> and
  \<open>educationLevel\<close>, and nothing else.
\<close>

definition cardData ::
  "string \<Rightarrow> string option \<Rightarrow> string option \<Rightarrow> string option \<Rightarrow> Flashcard \<Rightarrow> FlashcardData" where
  "cardData userId subject difficulty education c =
     \<lparr>d_userId = userId,
      d_question = question c,
      d_answer = answer c,
      d_subject = orNull subject,
      d_difficultyLevel = orElse (orElse (difficultyLevel c) (optionalString difficulty)) JNull,
      d_educationLevel = orNull education,
      d_moduleId = None,
      d_questionType = None,
      d_options = None,
      d_isAIGenerated = None\<rparr>"

text \<open>
  \<open>Promise.all(cards.map(card => prisma.flashcard.create({data})))\<close>: every create
  is issued; \<open>accepts\<close> says which \<open>data\<close> the client's validation lets through,
  and a rejected one rejects the whole promise.
\<close>

definition saveAll ::
  "(FlashcardData \<Rightarrow> bool) \<Rightarrow> bool \<Rightarrow> int \<Rightarrow> FlashcardData list \<Rightarrow> store \<Rightarrow> nat \<times> store" where
  "saveAll accepts columnDefault now ds db =
     (if list_all accepts ds then 201 else 500,
      fold (flashcard_create columnDefault now) (filter accepts ds) db)"

text \<open>
  \<open>POST /generate\<close>, for an authenticated user. \<open>generate\<close> is
  \<open>getAIService().generateFlashcards\<close>; the result is the HTTP status and the store.
\<close>

definition postGenerate ::
  "(GenerateFlashcardsOptions \<Rightarrow> error + Flashcard list) \<Rightarrow> (FlashcardData \<Rightarrow> bool) \<Rightarrow> bool
     \<Rightarrow> int \<Rightarrow> string \<Rightarrow> RequestBody \<Rightarrow> store \<Rightarrow> nat \<times> store" where
  "postGenerate generate accepts columnDefault now userId body db =
     (case b_content body of
        JStr content \<Rightarrow>
          if content = [] \<or> trim content = [] then (400, db)
          else if 50000 < length content then (400, db)
          else
            (let opts =
                   \<lparr>o_content = trim content,
                    o_subject = orUndefined (b_subject body),
                    o_educationLevel = orUndefined (b_educationLevel body),
                    o_difficultyLevel = orUndefined (b_difficultyLevel body),
                    o_numberOfCards = Some (Fin (numberOr 5 (b_numberOfCards body))),
                    o_questionTypes = b_questionTypes body\<rparr>
             in case generate opts of
                  Inl e \<Rightarrow> (500, db)
                | Inr generatedFlashcards \<Rightarrow>
                    saveAll accepts columnDefault now
                      (map (cardData userId (o_subject opts) (o_difficultyLevel opts)
                              (o_educationLevel opts)) generatedFlashcards)
                      db)
      | other \<Rightarrow> (400, db))"

text \<open>
  \<open>POST /generate-from-topic\<close>; \<open>generateFromTopic\<close> is
  \<open>getAIService().generateFlashcardsFromTopic\<close>.
\<close>

definition postGenerateFromTopic ::
  "(GenerateFlashcardsFromTopicOptions \<Rightarrow> error + Flashcard list) \<Rightarrow> (FlashcardData \<Rightarrow> bool)
     \<Rightarrow> bool \<Rightarrow> int \<Rightarrow> string \<Rightarrow> RequestBody \<Rightarrow> store \<Rightarrow> nat \<times> store" where
  "postGenerateFromTopic generateFromTopic accepts columnDefault now userId body db =
     (case b_topic body of
        JStr topicText \<Rightarrow>
          if topicText = [] \<or> trim topicText = [] then (400, db)
          else if 200 < length topicText then (400, db)
          else if (case b_numberOfCards body of
                     None \<Rightarrow> False
                   | Some n \<Rightarrow> n \<noteq> 0 \<and> (n < 1 \<or> 50 < n)) then (400, db)
          else
            (let opts =
                   \<lparr>t_topic = trim topicText,
                    t_subject = orUndefined (b_subject body),
                    t_educationLevel = orUndefined (b_educationLevel body),
                    t_difficultyLevel = orUndefined (b_difficultyLevel body),
                    t_numberOfCards = Some (Fin (numberOr 10 (b_numberOfCards body))),
                    t_questionTypes = b_questionTypes body\<rparr>
             in case generateFromTopic opts of
                  Inl e \<Rightarrow> (500, db)
                | Inr generatedFlashcards \<Rightarrow>
                    saveAll accepts columnDefault now
                      (map (cardData userId (t_subject opts) (t_difficultyLevel opts)
                              (t_educationLevel opts)) generatedFlashcards)
                      db)
      | other \<Rightarrow> (400, db))"

text \<open>
  For the examples: a user who has used up the day's 30 AI cards, a request for cards
  from a text, and an AI service that returns two cards.
\<close>

definition aiRow :: FlashcardRow where
  "aiRow =
     \<lparr>fc_data =
        \<lparr>d_userId = ''u1'', d_question = JStr ''Q'', d_answer = JStr ''A'', d_subject = JNull,
         d_difficultyLevel = JNull, d_educationLevel = JNull, d_moduleId = None,
         d_questionType = None, d_options = None, d_isAIGenerated = Some True\<rparr>,
      fc_isAIGenerated = True,
      fc_createdAt = 1762171200000\<rparr>"

definition exhaustedStore :: store where
  "exhaustedStore = \<lparr>studyModule = [], flashcard = replicate 30 aiRow\<rparr>"

definition contentBody :: RequestBody where
  "contentBody =
     \<lparr>b_content = JStr ''ATP stores energy.'', b_topic = JUndefined,
      b_subject = None, b_educationLevel = None, b_difficultyLevel = None,
      b_numberOfCards = Some 2, b_questionTypes = None\<rparr>"

definition twoCardService :: "GenerateFlashcardsOptions \<Rightarrow> error + Flashcard list" where
  "twoCardService = (\<lambda>opts. Inr [emptyCard, emptyCard])"

section \<open>Theorems\<close>

subsection \<open>Time values\<close>

lemma yearFrom_ge: "y \<le> yearFrom d y"
proof (induction d y rule: yearFrom.induct)
  case (1 d y)
  show ?case
  proof (cases "DayFromYear (y + 1) \<le> d")
    case True
    with 1 have "y + 1 \<le> yearFrom d (y + 1)" by simp
    moreover from True have "yearFrom d y = yearFrom d (y + 1)"
      by (simp add: yearFrom.simps [of d y])
    ultimately show ?thesis by simp
  next
    case False
    then show ?thesis by (simp add: yearFrom.simps [of d y])
  qed
qed

lemma MonthFromTime_range: "0 \<le> MonthFromTime t \<and> MonthFromTime t \<le> 11"
  by (simp add: MonthFromTime_def Let_def)

text \<open>The date read off a time value names the day of that time value.\<close>

lemma MakeDay_of_time:
  "MakeDay (YearFromTime t) (MonthFromTime t) (DateFromTime t) = Day t"
proof -
  have m: "0 \<le> MonthFromTime t" "MonthFromTime t \<le> 11"
    using MonthFromTime_range by simp_all
  then have dm: "MonthFromTime t div 12 = 0" "MonthFromTime t mod 12 = MonthFromTime t"
    by simp_all
  show ?thesis
    unfolding MakeDay_def Let_def dm
    by (simp add: DateFromTime_def InLeapYear_def DayWithinYear_def Let_def)
qed

lemma YearFromTime_epoch: "0 \<le> t \<Longrightarrow> 1970 \<le> YearFromTime t"
proof -
  assume "0 \<le> t"
  then have d: "0 \<le> Day t" by (simp add: Day_def msPerDay_def)
  then have "0 \<le> Day t div 366" by simp
  then have "1970 \<le> 1970 + Day t div 366" by simp
  also have "\<dots> \<le> yearFrom (Day t) (1970 + Day t div 366)" by (rule yearFrom_ge)
  finally show ?thesis using d by (simp add: YearFromTime_def Let_def)
qed

text \<open>From 1970 on, the start of today is the last multiple of a day.\<close>

lemma getStartOfTodayUTC_midnight:
  "0 \<le> now \<Longrightarrow> getStartOfTodayUTC now = Day now * msPerDay"
  using YearFromTime_epoch [of now]
  by (simp add: getStartOfTodayUTC_def Date_UTC_def MakeDate_def MakeDay_of_time)

subsection \<open>Daily limits\<close>

lemma count_as_card:
  "length (filter P xs) = card {i. i < length xs \<and> P (xs ! i)}"
  by (rule length_filter_conv_card)

text \<open>
  The relation filter finds the card's module by its id, the primary key of the table.
\<close>

lemma find_by_key:
  "distinct (map key xs) \<Longrightarrow>
     (case find (\<lambda>x. key x = k) xs of None \<Rightarrow> False | Some x \<Rightarrow> P x)
       = (\<exists>x\<in>set xs. key x = k \<and> P x)"
  by (induction xs) (auto simp: image_iff)

lemma module_isAIGenerated_iff:
  assumes "distinct (map sm_id (studyModule db))"
  shows "module_isAIGenerated db c
           = (\<exists>m\<in>set (studyModule db). d_moduleId (fc_data c) = Some (sm_id m)
                                         \<and> sm_isAIGenerated m)"
proof (cases "d_moduleId (fc_data c)")
  case None
  then show ?thesis by (simp add: module_isAIGenerated_def)
next
  case (Some mid)
  with find_by_key [OF assms, where k = mid and P = sm_isAIGenerated] show ?thesis
    by (auto simp: module_isAIGenerated_def)
qed

text \<open>
  C1. At a time \<open>now\<close> from 1970 on, in a store whose study modules have distinct ids:
  the result of \<open>checkStudyModuleDailyLimit\<close> carries the number of the user's study
  modules created at or after the last UTC midnight, which is
  \<open>86400000 * (now div 86400000)\<close>, denies exactly when that number is at least 3, and
  has limit 3; the result of \<open>checkAICardsDailyLimit\<close> carries the number of the user's
  cards created at or after that midnight that are flagged \<open>isAIGenerated\<close> or belong
  to a study module flagged so, denies exactly when that number plus the requested
  count exceeds 30, and has limit 30. Both have
  \<open>remaining = max 0 (limit - currentCount)\<close>.
\<close>

theorem daily_limit_checks:
  assumes "0 \<le> now" and "distinct (map sm_id (studyModule db))"
  shows "currentCount (checkStudyModuleDailyLimit db now userId)
      = int (card {i. i < length (studyModule db)
                     \<and> sm_userId (studyModule db ! i) = userId
                     \<and> 86400000 * (now div 86400000) \<le> sm_createdAt (studyModule db ! i)})
   \<and> (\<not> allowed (checkStudyModuleDailyLimit db now userId))
        = (3 \<le> currentCount (checkStudyModuleDailyLimit db now userId))
   \<and> limit (checkStudyModuleDailyLimit db now userId) = 3
   \<and> remaining (checkStudyModuleDailyLimit db now userId)
        = max 0 (3 - currentCount (checkStudyModuleDailyLimit db now userId))
   \<and> currentCount (checkAICardsDailyLimit db now userId requested)
      = int (card {i. i < length (flashcard db)
                     \<and> d_userId (fc_data (flashcard db ! i)) = userId
                     \<and> 86400000 * (now div 86400000) \<le> fc_createdAt (flashcard db ! i)
                     \<and> (fc_isAIGenerated (flashcard db ! i)
                          \<or> (\<exists>m\<in>set (studyModule db).
                                d_moduleId (fc_data (flashcard db ! i)) = Some (sm_id m)
                                \<and> sm_isAIGenerated m))})
   \<and> (\<not> allowed (checkAICardsDailyLimit db now userId requested))
        = (30 < currentCount (checkAICardsDailyLimit db now userId requested) + requested)
   \<and> limit (checkAICardsDailyLimit db now userId requested) = 30
   \<and> remaining (checkAICardsDailyLimit db now userId requested)
        = max 0 (30 - currentCount (checkAICardsDailyLimit db now userId requested))
   \<and> requestedCount (checkAICardsDailyLimit db now userId requested) = requested"
proof -
  from assms(1) have start: "getStartOfTodayUTC now = 86400000 * (now div 86400000)"
    by (simp add: getStartOfTodayUTC_midnight Day_def msPerDay_def)
  note of_module = module_isAIGenerated_iff [OF assms(2)]
  show ?thesis
    by (simp add: checkStudyModuleDailyLimit_def checkAICardsDailyLimit_def Let_def
          STUDY_MODULES_def AI_CARDS_def studyModule_count_def flashcard_count_def
          count_as_card not_less not_le start of_module)
qed

text \<open>
  On 2025-11-03 at 13:00 UTC, of the five cards of the user in \<open>mixedStore\<close> the
  flagged one of that day and the one in the generated module count, the other three
  do not; of the two modules the one of that day counts.
\<close>

theorem daily_limit_checks_witness:
  "currentCount (checkStudyModuleDailyLimit mixedStore 1762174800000 ''u1'') = 1
   \<and> allowed (checkStudyModuleDailyLimit mixedStore 1762174800000 ''u1'')
   \<and> remaining (checkStudyModuleDailyLimit mixedStore 1762174800000 ''u1'') = 2
   \<and> currentCount (checkAICardsDailyLimit mixedStore 1762174800000 ''u1'' 29) = 2
   \<and> \<not> allowed (checkAICardsDailyLimit mixedStore 1762174800000 ''u1'' 29)
   \<and> allowed (checkAICardsDailyLimit mixedStore 1762174800000 ''u1'' 28)
   \<and> remaining (checkAICardsDailyLimit mixedStore 1762174800000 ''u1'' 29) = 28"
proof -
  have now: "(0::int) \<le> 1762174800000" by simp
  have keys: "distinct (map sm_id (studyModule mixedStore))"
    by (simp add: mixedStore_def)
  let ?today = "\<lambda>m. sm_userId m = ''u1''
                  \<and> 86400000 * (1762174800000 div 86400000) \<le> sm_createdAt m"
  let ?counted = "\<lambda>c. d_userId (fc_data c) = ''u1''
                    \<and> 86400000 * (1762174800000 div 86400000) \<le> fc_createdAt c
                    \<and> (fc_isAIGenerated c
                         \<or> (\<exists>m\<in>set (studyModule mixedStore).
                               d_moduleId (fc_data c) = Some (sm_id m) \<and> sm_isAIGenerated m))"
  have modules: "card {i. i < length (studyModule mixedStore)
                         \<and> ?today (studyModule mixedStore ! i)} = 1"
    unfolding count_as_card [of ?today "studyModule mixedStore", symmetric]
    by (simp add: mixedStore_def)
  have cards: "card {i. i < length (flashcard mixedStore)
                       \<and> ?counted (flashcard mixedStore ! i)} = 2"
    unfolding count_as_card [of ?counted "flashcard mixedStore", symmetric]
    by (simp add: mixedStore_def plainCard_def)
  from daily_limit_checks [OF now keys, of "''u1''" 29]
    daily_limit_checks [OF now keys, of "''u1''" 28] modules cards
  show ?thesis by auto
qed

text \<open>
  C8, as stated, fails: for a user whose only study module is from the day before, the
  counter computed on 2025-11-03 at 23:59:59 UTC and the one computed on 2025-11-04 at
  00:00:01 UTC are the same.
\<close>

theorem daily_counters_equal_across_midnight:
  "currentCount (checkStudyModuleDailyLimit exampleStore 1762214399000 ''u1'')
     = currentCount (checkStudyModuleDailyLimit exampleStore 1762214401000 ''u1'')"
  by code_simp

lemma Day_succ_start:
  assumes "0 \<le> t1" and "Day t2 = Day t1 + 1"
  shows "getStartOfTodayUTC t2 = Day t2 * msPerDay"
proof -
  have "0 \<le> Day t1" using assms(1) by (simp add: Day_def msPerDay_def)
  with assms(2) have "0 \<le> Day t2" by simp
  then have "0 \<le> t2" unfolding Day_def msPerDay_def
    by (simp add: pos_imp_zdiv_nonneg_iff)
  then show ?thesis by (rule getStartOfTodayUTC_midnight)
qed

text \<open>
  C8, as amended. Both checks count the rows stamped at or after
  \<open>getStartOfTodayUTC now\<close>, which from 1970 on is the last UTC midnight. If \<open>t1\<close>
  lies in one UTC day and \<open>t2\<close> in the next, the window of \<open>t2\<close> starts one day
  later; for stored data stamped before that midnight both counters computed at \<open>t2\<close>
  are 0, and each differs from the one computed at \<open>t1\<close> exactly when that one is
  not 0.
\<close>

theorem daily_window_resets_at_UTC_midnight:
  assumes "0 \<le> t1" and "Day t2 = Day t1 + 1"
    and "\<forall>m \<in> set (studyModule db). sm_createdAt m < Day t2 * msPerDay"
    and "\<forall>c \<in> set (flashcard db). fc_createdAt c < Day t2 * msPerDay"
  shows "getStartOfTodayUTC t1 = Day t1 * msPerDay
    \<and> getStartOfTodayUTC t2 = getStartOfTodayUTC t1 + msPerDay
    \<and> currentCount (checkStudyModuleDailyLimit db t1 userId)
        = int (length (filter (\<lambda>m. sm_userId m = userId \<and> Day t1 * msPerDay \<le> sm_createdAt m)
                  (studyModule db)))
    \<and> currentCount (checkAICardsDailyLimit db t1 userId requested)
        = int (length (filter (\<lambda>c. d_userId (fc_data c) = userId
                                  \<and> Day t1 * msPerDay \<le> fc_createdAt c
                                  \<and> (fc_isAIGenerated c \<or> module_isAIGenerated db c))
                  (flashcard db)))
    \<and> currentCount (checkStudyModuleDailyLimit db t2 userId) = 0
    \<and> currentCount (checkAICardsDailyLimit db t2 userId requested) = 0
    \<and> (currentCount (checkStudyModuleDailyLimit db t1 userId)
          \<noteq> currentCount (checkStudyModuleDailyLimit db t2 userId))
        = (currentCount (checkStudyModuleDailyLimit db t1 userId) \<noteq> 0)
    \<and> (currentCount (checkAICardsDailyLimit db t1 userId requested)
          \<noteq> currentCount (checkAICardsDailyLimit db t2 userId requested))
        = (currentCount (checkAICardsDailyLimit db t1 userId requested) \<noteq> 0)"
proof -
  have s1: "getStartOfTodayUTC t1 = Day t1 * msPerDay"
    using assms(1) by (rule getStartOfTodayUTC_midnight)
  have s2: "getStartOfTodayUTC t2 = Day t2 * msPerDay"
    using assms(1,2) by (rule Day_succ_start)
  have step: "getStartOfTodayUTC t2 = getStartOfTodayUTC t1 + msPerDay"
    unfolding s1 s2 assms(2) by (simp add: algebra_simps)
  have m0: "filter (\<lambda>m. sm_userId m = userId \<and> Day t2 * msPerDay \<le> sm_createdAt m)
              (studyModule db) = []"
    using assms(3) by (auto simp: filter_empty_conv)
  have c0: "filter (\<lambda>c. d_userId (fc_data c) = userId \<and> Day t2 * msPerDay \<le> fc_createdAt c
                          \<and> (fc_isAIGenerated c \<or> module_isAIGenerated db c))
              (flashcard db) = []"
    using assms(4) by (auto simp: filter_empty_conv)
  have z1: "currentCount (checkStudyModuleDailyLimit db t2 userId) = 0"
    by (simp add: checkStudyModuleDailyLimit_def Let_def studyModule_count_def s2 m0)
  have z2: "currentCount (checkAICardsDailyLimit db t2 userId requested) = 0"
    by (simp add: checkAICardsDailyLimit_def Let_def flashcard_count_def s2 c0)
  have e1: "currentCount (checkStudyModuleDailyLimit db t1 userId)
        = int (length (filter (\<lambda>m. sm_userId m = userId \<and> Day t1 * msPerDay \<le> sm_createdAt m)
                  (studyModule db)))"
    by (simp add: checkStudyModuleDailyLimit_def Let_def studyModule_count_def s1)
  have e2: "currentCount (checkAICardsDailyLimit db t1 userId requested)
        = int (length (filter (\<lambda>c. d_userId (fc_data c) = userId
                                  \<and> Day t1 * msPerDay \<le> fc_createdAt c
                                  \<and> (fc_isAIGenerated c \<or> module_isAIGenerated db c))
                  (flashcard db)))"
    by (simp add: checkAICardsDailyLimit_def Let_def flashcard_count_def s1)
  show ?thesis
    unfolding z1 z2 using s1 step e1 e2 by simp
qed


theorem daily_window_resets_at_UTC_midnight_witness:
  "getStartOfTodayUTC 1762214399000 = Day 1762214399000 * msPerDay
   \<and> getStartOfTodayUTC 1762214401000 = getStartOfTodayUTC 1762214399000 + msPerDay
   \<and> currentCount (checkStudyModuleDailyLimit busyStore 1762214399000 ''u1'') = 1
   \<and> currentCount (checkStudyModuleDailyLimit busyStore 1762214401000 ''u1'') = 0
   \<and> currentCount (checkAICardsDailyLimit busyStore 1762214401000 ''u1'' 5) = 0"
proof -
  have h1: "(0::int) \<le> 1762214399000" by simp
  have h2: "Day 1762214401000 = Day 1762214399000 + 1" by (simp add: Day_def msPerDay_def)
  have h3: "\<forall>m \<in> set (studyModule busyStore). sm_createdAt m < Day 1762214401000 * msPerDay"
    by (simp add: busyStore_def Day_def msPerDay_def)
  have h4: "\<forall>c \<in> set (flashcard busyStore). fc_createdAt c < Day 1762214401000 * msPerDay"
    by (simp add: busyStore_def)
  have n: "int (length (filter (\<lambda>m. sm_userId m = ''u1''
                \<and> Day 1762214399000 * msPerDay \<le> sm_createdAt m) (studyModule busyStore))) = 1"
    by (simp add: busyStore_def Day_def msPerDay_def)
  from daily_window_resets_at_UTC_midnight [OF h1 h2 h3 h4, of "''u1''" 5] n
  show ?thesis by simp
qed

subsection \<open>The adapter: fences, parsing and normalization\<close>

lemma strip1: "stripCodeFence (''```'' @ [newline] @ ''[\"```\"]'' @ [newline] @ ''```'')
     = ''[\"\"]'' @ [newline]"
  by code_simp

lemma strip2: "stripCodeFence (''```json'' @ [newline] @ ''[\"```\"]'' @ [newline] @ ''```'')
     = ''[\"```\"]'' @ [newline]"
  by code_simp

text \<open>
  C5. A payload whose text contains a fence is not recovered from a bare fence: for the
  payload \<open>["```"]\<close> wrapped in a bare fence, \<open>extractJSON\<close> parses \<open>[""]\<close>, since
  the bare-fence branch removes every fence in the text. The branch for a fence tagged
  \<open>json\<close> removes the closing fence only at the end of the text and hands the same
  payload on unchanged.
\<close>

theorem extractJSON_fence_inside_payload:
  "extractJSON JSON_parse (''```'' @ [newline] @ ''[\"```\"]'' @ [newline] @ ''```'')
     = JSON_parse (''[\"\"]'' @ [newline])
   \<and> extractJSON JSON_parse (''```json'' @ [newline] @ ''[\"```\"]'' @ [newline] @ ''```'')
     = JSON_parse (''[\"```\"]'' @ [newline])"
  unfolding extractJSON_def strip1 strip2 by simp


lemma mapThrowing_Inr:
  "mapThrowing f xs = Inr ys \<longleftrightarrow> list_all2 (\<lambda>x y. f x = Inr y) xs ys"
proof (induction xs arbitrary: ys)
  case Nil
  show ?case by auto
next
  case (Cons x xs)
  have IH: "\<And>zs. list_all2 (\<lambda>x y. f x = Inr y) xs zs \<longleftrightarrow> mapThrowing f xs = Inr zs"
    using Cons.IH by simp
  show ?case
    unfolding list_all2_Cons1 IH
    by (cases "f x"; cases "mapThrowing f xs") auto
qed

lemma mapThrowing_Inl:
  "(\<exists>e. mapThrowing f xs = Inl e) \<longleftrightarrow> (\<exists>x \<in> set xs. \<exists>e. f x = Inl e)"
proof (induction xs)
  case Nil
  show ?case by simp
next
  case (Cons x xs)
  show ?case
    using Cons.IH by (cases "f x"; cases "mapThrowing f xs") auto
qed

lemma getProp_throws: "(\<exists>e. getProp c key = Inl e) \<longleftrightarrow> c = JNull \<or> c = JUndefined"
  by (cases c) simp_all

lemma getProp_value: "c \<noteq> JNull \<Longrightarrow> c \<noteq> JUndefined \<Longrightarrow> \<exists>v. getProp c key = Inr v"
  by (cases c) simp_all

lemma normalizeCard_throws:
  "(\<exists>e. normalizeCard d c = Inl e) \<longleftrightarrow> c = JNull \<or> c = JUndefined"
  by (cases c) (simp_all add: normalizeCard_def)

lemma normalizeCard_Inr:
  "normalizeCard d c = Inr f \<Longrightarrow>
     \<exists>q a t dl os.
        getProp c ''question'' = Inr q \<and> getProp c ''answer'' = Inr a
      \<and> getProp c ''questionType'' = Inr t \<and> getProp c ''difficultyLevel'' = Inr dl
      \<and> getProp c ''options'' = Inr os
      \<and> f = \<lparr>question = orElse q (JStr []), answer = orElse a (JStr []),
              questionType = orElse t (JStr ''short_answer''),
              difficultyLevel = orElse dl (JStr d), options = orElse os JUndefined\<rparr>"
  by (auto simp: normalizeCard_def split: sum.splits)

lemma generateFlashcards_Inr:
  assumes "fst (generateFlashcards JSON_parse makeRequest opts w) = Inr cards"
  shows "\<exists>text items.
           fst (makeRequest (flashcardsPrompt opts) w) = Inr text
         \<and> JSON_parse (stripCodeFence text) = Inr (JArr items)
         \<and> list_all2 (\<lambda>x y. normalizeCard (defaultTo ''intermediate'' (o_difficultyLevel opts)) x
                              = Inr y) items cards"
proof (cases "makeRequest (flashcardsPrompt opts) w")
  case (Pair response w')
  show ?thesis
  proof (cases response)
    case (Inl e)
    with Pair assms show ?thesis by (simp add: generateFlashcards_def Let_def)
  next
    case (Inr reply)
    show ?thesis
    proof (cases "JSON_parse (stripCodeFence reply)")
      case (Inl e)
      with Pair Inr assms show ?thesis
        by (simp add: generateFlashcards_def Let_def extractJSON_def)
    next
      case v: (Inr v)
      show ?thesis
      proof (cases "\<exists>items. v = JArr items")
        case False
        with Pair Inr v assms show ?thesis
          by (cases v) (simp_all add: generateFlashcards_def Let_def extractJSON_def)
      next
        case True
        then obtain items where items: "v = JArr items" by blast
        let ?d = "defaultTo ''intermediate'' (o_difficultyLevel opts)"
        from Pair Inr v items assms
        have "mapThrowing (normalizeCard ?d) items = Inr cards"
          by (cases "mapThrowing (normalizeCard ?d) items")
             (simp_all add: generateFlashcards_def Let_def extractJSON_def)
        then have "list_all2 (\<lambda>x y. normalizeCard ?d x = Inr y) items cards"
          by (simp add: mapThrowing_Inr)
        with Pair Inr v items show ?thesis by simp
      qed
    qed
  qed
qed

lemma generateFlashcards_request_error:
  assumes "fst (makeRequest (flashcardsPrompt opts) w) = Inl e"
  shows "fst (generateFlashcards JSON_parse makeRequest opts w)
           = Inl (Error (''Failed to generate flashcards: '' @ message e))"
  using assms
  by (cases "makeRequest (flashcardsPrompt opts) w")
     (simp add: generateFlashcards_def Let_def)

lemma generateFlashcards_parse_error:
  assumes "fst (makeRequest (flashcardsPrompt opts) w) = Inr reply"
    and "JSON_parse (stripCodeFence reply) = Inl e"
  shows "fst (generateFlashcards JSON_parse makeRequest opts w)
           = Inl (Error (''Failed to generate flashcards: '' @ message e))"
  using assms
  by (cases "makeRequest (flashcardsPrompt opts) w")
     (simp add: generateFlashcards_def extractJSON_def Let_def)

lemma generateFlashcards_not_array:
  assumes "fst (makeRequest (flashcardsPrompt opts) w) = Inr reply"
    and "JSON_parse (stripCodeFence reply) = Inr v"
    and "\<forall>items. v \<noteq> JArr items"
  shows "fst (generateFlashcards JSON_parse makeRequest opts w)
           = Inl (Error (''Failed to generate flashcards: '' @ ''AI response is not an array''))"
  using assms
  by (cases "makeRequest (flashcardsPrompt opts) w"; cases v)
     (simp_all add: generateFlashcards_def extractJSON_def Let_def)

lemma generateFlashcards_array:
  assumes "fst (makeRequest (flashcardsPrompt opts) w) = Inr reply"
    and "JSON_parse (stripCodeFence reply) = Inr (JArr items)"
  shows "fst (generateFlashcards JSON_parse makeRequest opts w)
           = (case mapThrowing
                     (normalizeCard (defaultTo ''intermediate'' (o_difficultyLevel opts))) items of
                Inl e \<Rightarrow> Inl (Error (''Failed to generate flashcards: '' @ message e))
              | Inr cards \<Rightarrow> Inr cards)"
  using assms
  by (cases "makeRequest (flashcardsPrompt opts) w";
      cases "mapThrowing (normalizeCard (defaultTo ''intermediate'' (o_difficultyLevel opts))) items")
     (simp_all add: generateFlashcards_def extractJSON_def Let_def)

lemma iff_both: "P \<Longrightarrow> Q \<Longrightarrow> (P \<longleftrightarrow> Q)"
  by simp

lemma generateFlashcards_Inl:
  "(\<exists>e. fst (generateFlashcards JSON_parse makeRequest opts w) = Inl e) \<longleftrightarrow>
     (\<exists>e. fst (makeRequest (flashcardsPrompt opts) w) = Inl e)
   \<or> (\<exists>text. fst (makeRequest (flashcardsPrompt opts) w) = Inr text
        \<and> ((\<exists>e. JSON_parse (stripCodeFence text) = Inl e)
           \<or> (\<exists>v. JSON_parse (stripCodeFence text) = Inr v \<and> (\<forall>items. v \<noteq> JArr items))
           \<or> (\<exists>items. JSON_parse (stripCodeFence text) = Inr (JArr items)
                \<and> (JNull \<in> set items \<or> JUndefined \<in> set items))))"
  (is "?L \<longleftrightarrow> ?R")
proof (cases "fst (makeRequest (flashcardsPrompt opts) w)")
  case (Inl e)
  have l: "?L"
    by (rule exI)
       (rule generateFlashcards_request_error
          [where makeRequest = makeRequest and opts = opts and w = w
             and JSON_parse = JSON_parse, OF Inl])
  have r: "?R" by (rule disjI1, rule exI, rule Inl)
  show ?thesis by (rule iff_both [OF l r])
next
  case (Inr reply)
  show ?thesis
  proof (cases "JSON_parse (stripCodeFence reply)")
    case (Inl e)
    have l: "?L"
      by (rule exI)
         (rule generateFlashcards_parse_error
            [where makeRequest = makeRequest and opts = opts and w = w
               and JSON_parse = JSON_parse, OF Inr Inl])
    have "\<exists>e. JSON_parse (stripCodeFence reply) = Inl e" by (rule exI, rule Inl)
    with Inr have r: "?R" by blast
    show ?thesis by (rule iff_both [OF l r])
  next
    case v: (Inr v)
    show ?thesis
    proof (cases "\<exists>items. v = JArr items")
      case False
      then have na: "\<forall>items. v \<noteq> JArr items" by blast
      have l: "?L"
        by (rule exI)
           (rule generateFlashcards_not_array
              [where makeRequest = makeRequest and opts = opts and w = w
                 and JSON_parse = JSON_parse, OF Inr v na])
      from v na have "\<exists>v. JSON_parse (stripCodeFence reply) = Inr v \<and> (\<forall>items. v \<noteq> JArr items)"
        by blast
      with Inr have r: "?R" by blast
      show ?thesis by (rule iff_both [OF l r])
    next
      case True
      then obtain items where items: "v = JArr items" by blast
      let ?d = "defaultTo ''intermediate'' (o_difficultyLevel opts)"
      have p: "JSON_parse (stripCodeFence reply) = Inr (JArr items)" using v items by simp
      have thr: "(\<exists>e. mapThrowing (normalizeCard ?d) items = Inl e)
              \<longleftrightarrow> JNull \<in> set items \<or> JUndefined \<in> set items"
        by (auto simp: mapThrowing_Inl normalizeCard_throws)
      have g: "fst (generateFlashcards JSON_parse makeRequest opts w)
           = (case mapThrowing (normalizeCard ?d) items of
                Inl e \<Rightarrow> Inl (Error (''Failed to generate flashcards: '' @ message e))
              | Inr cards \<Rightarrow> Inr cards)"
        by (rule generateFlashcards_array
              [where makeRequest = makeRequest and opts = opts and w = w
                 and JSON_parse = JSON_parse, OF Inr p])
      have l: "?L \<longleftrightarrow> (\<exists>e. mapThrowing (normalizeCard ?d) items = Inl e)"
        unfolding g by (cases "mapThrowing (normalizeCard ?d) items") simp_all
      have r: "?R \<longleftrightarrow> JNull \<in> set items \<or> JUndefined \<in> set items"
        unfolding Inr by (simp add: p)
      show ?thesis unfolding l r thr ..
    qed
  qed
qed

lemma generateFlashcards_error_message:
  "fst (generateFlashcards JSON_parse makeRequest opts w) = Inl e \<Longrightarrow>
     \<exists>m. e = Error (''Failed to generate flashcards: '' @ m)"
  by (auto simp: generateFlashcards_def Let_def split: prod.splits sum.splits)

lemma generateFlashcards_cards:
  assumes "fst (generateFlashcards JSON_parse makeRequest opts w) = Inr cards"
  shows "\<exists>text items.
           fst (makeRequest (flashcardsPrompt opts) w) = Inr text
         \<and> JSON_parse (stripCodeFence text) = Inr (JArr items)
         \<and> length cards = length items
         \<and> (\<forall>i < length items. \<exists>q a t dl os.
               getProp (items ! i) ''question'' = Inr q
             \<and> getProp (items ! i) ''answer'' = Inr a
             \<and> getProp (items ! i) ''questionType'' = Inr t
             \<and> getProp (items ! i) ''difficultyLevel'' = Inr dl
             \<and> getProp (items ! i) ''options'' = Inr os
             \<and> cards ! i =
                 \<lparr>question = orElse q (JStr []), answer = orElse a (JStr []),
                  questionType = orElse t (JStr ''short_answer''),
                  difficultyLevel =
                    orElse dl (JStr (defaultTo ''intermediate'' (o_difficultyLevel opts))),
                  options = orElse os JUndefined\<rparr>)"
proof -
  let ?d = "defaultTo ''intermediate'' (o_difficultyLevel opts)"
  from generateFlashcards_Inr [OF assms] obtain reply items where
    t: "fst (makeRequest (flashcardsPrompt opts) w) = Inr reply"
    and p: "JSON_parse (stripCodeFence reply) = Inr (JArr items)"
    and m: "list_all2 (\<lambda>x y. normalizeCard ?d x = Inr y) items cards"
    by blast
  from m have len: "length cards = length items" by (simp add: list_all2_lengthD)
  from m have "\<forall>i < length items. normalizeCard ?d (items ! i) = Inr (cards ! i)"
    by (simp add: list_all2_conv_all_nth)
  then have "\<forall>i < length items. \<exists>q a t dl os.
               getProp (items ! i) ''question'' = Inr q
             \<and> getProp (items ! i) ''answer'' = Inr a
             \<and> getProp (items ! i) ''questionType'' = Inr t
             \<and> getProp (items ! i) ''difficultyLevel'' = Inr dl
             \<and> getProp (items ! i) ''options'' = Inr os
             \<and> cards ! i =
                 \<lparr>question = orElse q (JStr []), answer = orElse a (JStr []),
                  questionType = orElse t (JStr ''short_answer''),
                  difficultyLevel = orElse dl (JStr ?d),
                  options = orElse os JUndefined\<rparr>"
    using normalizeCard_Inr by blast
  with t p len show ?thesis by blast
qed

text \<open>
  C6, as amended. \<open>generateFlashcards\<close> fails exactly when the provider call errors,
  the stripped response is not valid JSON, the parsed value is not an array, or an
  element of the array is \<open>null\<close> (or \<open>undefined\<close>); the error it throws is an
  \<open>Error\<close> whose message starts with \<open>Failed to generate flashcards: \<close>. On success
  there is one card for each element, in order, and in it a falsy or missing
  \<open>question\<close> or \<open>answer\<close> is the empty string, a falsy or missing
  \<open>questionType\<close> is \<open>short_answer\<close>, a falsy or missing \<open>difficultyLevel\<close> is the
  difficulty level of the request (\<open>intermediate\<close> when the request gives none), and
  \<open>options\<close> is the value of the provider, or left out when that is falsy or missing.
\<close>

theorem generateFlashcards_outcome:
  "((\<exists>e. fst (generateFlashcards JSON_parse makeRequest opts w) = Inl e) \<longleftrightarrow>
       (\<exists>e. fst (makeRequest (flashcardsPrompt opts) w) = Inl e)
     \<or> (\<exists>text. fst (makeRequest (flashcardsPrompt opts) w) = Inr text
          \<and> ((\<exists>e. JSON_parse (stripCodeFence text) = Inl e)
             \<or> (\<exists>v. JSON_parse (stripCodeFence text) = Inr v \<and> (\<forall>items. v \<noteq> JArr items))
             \<or> (\<exists>items. JSON_parse (stripCodeFence text) = Inr (JArr items)
                  \<and> (JNull \<in> set items \<or> JUndefined \<in> set items)))))
   \<and> (\<forall>e. fst (generateFlashcards JSON_parse makeRequest opts w) = Inl e
          \<longrightarrow> (\<exists>m. e = Error (''Failed to generate flashcards: '' @ m)))
   \<and> (\<forall>cards. fst (generateFlashcards JSON_parse makeRequest opts w) = Inr cards
          \<longrightarrow> (\<exists>text items.
                 fst (makeRequest (flashcardsPrompt opts) w) = Inr text
               \<and> JSON_parse (stripCodeFence text) = Inr (JArr items)
               \<and> length cards = length items
               \<and> (\<forall>i < length items. \<exists>q a t dl os.
                     getProp (items ! i) ''question'' = Inr q
                   \<and> getProp (items ! i) ''answer'' = Inr a
                   \<and> getProp (items ! i) ''questionType'' = Inr t
                   \<and> getProp (items ! i) ''difficultyLevel'' = Inr dl
                   \<and> getProp (items ! i) ''options'' = Inr os
                   \<and> cards ! i =
                       \<lparr>question = orElse q (JStr []), answer = orElse a (JStr []),
                        questionType = orElse t (JStr ''short_answer''),
                        difficultyLevel =
                          orElse dl (JStr (defaultTo ''intermediate'' (o_difficultyLevel opts))),
                        options = orElse os JUndefined\<rparr>)))"
proof (intro conjI allI impI)
  show "(\<exists>e. fst (generateFlashcards JSON_parse makeRequest opts w) = Inl e) \<longleftrightarrow>
       (\<exists>e. fst (makeRequest (flashcardsPrompt opts) w) = Inl e)
     \<or> (\<exists>text. fst (makeRequest (flashcardsPrompt opts) w) = Inr text
          \<and> ((\<exists>e. JSON_parse (stripCodeFence text) = Inl e)
             \<or> (\<exists>v. JSON_parse (stripCodeFence text) = Inr v \<and> (\<forall>items. v \<noteq> JArr items))
             \<or> (\<exists>items. JSON_parse (stripCodeFence text) = Inr (JArr items)
                  \<and> (JNull \<in> set items \<or> JUndefined \<in> set items))))"
    by (rule generateFlashcards_Inl)
next
  fix e
  assume "fst (generateFlashcards JSON_parse makeRequest opts w) = Inl e"
  then show "\<exists>m. e = Error (''Failed to generate flashcards: '' @ m)"
    by (rule generateFlashcards_error_message)
next
  fix cards
  assume "fst (generateFlashcards JSON_parse makeRequest opts w) = Inr cards"
  then show "\<exists>text items.
                 fst (makeRequest (flashcardsPrompt opts) w) = Inr text
               \<and> JSON_parse (stripCodeFence text) = Inr (JArr items)
               \<and> length cards = length items
               \<and> (\<forall>i < length items. \<exists>q a t dl os.
                     getProp (items ! i) ''question'' = Inr q
                   \<and> getProp (items ! i) ''answer'' = Inr a
                   \<and> getProp (items ! i) ''questionType'' = Inr t
                   \<and> getProp (items ! i) ''difficultyLevel'' = Inr dl
                   \<and> getProp (items ! i) ''options'' = Inr os
                   \<and> cards ! i =
                       \<lparr>question = orElse q (JStr []), answer = orElse a (JStr []),
                        questionType = orElse t (JStr ''short_answer''),
                        difficultyLevel =
                          orElse dl (JStr (defaultTo ''intermediate'' (o_difficultyLevel opts))),
                        options = orElse os JUndefined\<rparr>)"
    by (rule generateFlashcards_cards)
qed

text \<open>
  C6, as stated, fails: the provider answers, the answer \<open>[null]\<close> is valid JSON and
  an array, and \<open>generateFlashcards\<close> throws all the same, on reading \<open>question\<close> of
  \<open>null\<close>.
\<close>

theorem generateFlashcards_null_card:
  "fst (respond ''[null]'' (flashcardsPrompt plainOptions) ()) = Inr ''[null]''
   \<and> parseAs ''[null]'' (JArr [JNull]) (stripCodeFence ''[null]'') = Inr (JArr [JNull])
   \<and> fst (generateFlashcards (parseAs ''[null]'' (JArr [JNull])) (respond ''[null]'')
            plainOptions ())
       = Inl (Error ''Failed to generate flashcards: Cannot read properties of null (reading 'question')'')"
  by code_simp

lemma emptyObject_run:
  "fst (generateFlashcards (parseAs ''[{}]'' (JArr [JObj []])) (respond ''[{}]'')
          plainOptions ()) = Inr [emptyCard]"
  by code_simp

theorem generateFlashcards_outcome_witness:
  "fst (generateFlashcards (parseAs ''[{}]'' (JArr [JObj []])) (respond ''[{}]'')
          plainOptions ()) = Inr [emptyCard]
   \<and> (\<exists>text items.
         fst (respond ''[{}]'' (flashcardsPrompt plainOptions) ()) = Inr text
       \<and> parseAs ''[{}]'' (JArr [JObj []]) (stripCodeFence text) = Inr (JArr items)
       \<and> length [emptyCard] = length items)"
proof -
  note run = emptyObject_run
  from generateFlashcards_outcome
         [of "parseAs ''[{}]'' (JArr [JObj []])" "respond ''[{}]''" plainOptions "()"]
  have "\<forall>cards. fst (generateFlashcards (parseAs ''[{}]'' (JArr [JObj []])) (respond ''[{}]'')
                       plainOptions ()) = Inr cards
          \<longrightarrow> (\<exists>text items.
                 fst (respond ''[{}]'' (flashcardsPrompt plainOptions) ()) = Inr text
               \<and> parseAs ''[{}]'' (JArr [JObj []]) (stripCodeFence text) = Inr (JArr items)
               \<and> length cards = length items
               \<and> (\<forall>i < length items. \<exists>q a t dl os.
                     getProp (items ! i) ''question'' = Inr q
                   \<and> getProp (items ! i) ''answer'' = Inr a
                   \<and> getProp (items ! i) ''questionType'' = Inr t
                   \<and> getProp (items ! i) ''difficultyLevel'' = Inr dl
                   \<and> getProp (items ! i) ''options'' = Inr os
                   \<and> cards ! i =
                       \<lparr>question = orElse q (JStr []), answer = orElse a (JStr []),
                        questionType = orElse t (JStr ''short_answer''),
                        difficultyLevel =
                          orElse dl (JStr (defaultTo ''intermediate''
                                             (o_difficultyLevel plainOptions))),
                        options = orElse os JUndefined\<rparr>))"
    by (elim conjE)
  from this [rule_format, OF run] obtain reply items where
    "fst (respond ''[{}]'' (flashcardsPrompt plainOptions) ()) = Inr reply"
    "parseAs ''[{}]'' (JArr [JObj []]) (stripCodeFence reply) = Inr (JArr items)"
    "length [emptyCard] = length items"
    by (elim exE conjE)
  then have "\<exists>text items.
         fst (respond ''[{}]'' (flashcardsPrompt plainOptions) ()) = Inr text
       \<and> parseAs ''[{}]'' (JArr [JObj []]) (stripCodeFence text) = Inr (JArr items)
       \<and> length [emptyCard] = length items"
    by (intro exI conjI)
  with run show ?thesis by (intro conjI)
qed

lemma getProp_absent:
  "getProp (JObj kvs) ''options'' = Inr os \<Longrightarrow> map_of kvs ''options'' = None
     \<Longrightarrow> os = JUndefined"
  by (simp add: objectGet_def objectPrototypeKeys_def)

text \<open>
  C7, as amended. In every card that \<open>generateFlashcards\<close> returns, \<open>options\<close> is
  the \<open>options\<close> value of the provider's card when that value is truthy and is left
  out otherwise, whatever the \<open>questionType\<close>; in particular a card whose provider
  object has no \<open>options\<close> carries none.
\<close>

theorem generateFlashcards_options:
  assumes "fst (generateFlashcards JSON_parse makeRequest opts w) = Inr cards"
  shows "\<exists>text items.
           fst (makeRequest (flashcardsPrompt opts) w) = Inr text
         \<and> JSON_parse (stripCodeFence text) = Inr (JArr items)
         \<and> length cards = length items
         \<and> (\<forall>i < length items.
               (\<exists>os. getProp (items ! i) ''options'' = Inr os
                    \<and> options (cards ! i) = (if truthy os then os else JUndefined))
             \<and> (\<forall>kvs. items ! i = JObj kvs \<and> map_of kvs ''options'' = None
                    \<longrightarrow> options (cards ! i) = JUndefined))"
proof -
  from generateFlashcards_cards [OF assms] obtain reply items where
    t: "fst (makeRequest (flashcardsPrompt opts) w) = Inr reply"
    and p: "JSON_parse (stripCodeFence reply) = Inr (JArr items)"
    and len: "length cards = length items"
    and each: "\<forall>i < length items. \<exists>q a t dl os.
                     getProp (items ! i) ''question'' = Inr q
                   \<and> getProp (items ! i) ''answer'' = Inr a
                   \<and> getProp (items ! i) ''questionType'' = Inr t
                   \<and> getProp (items ! i) ''difficultyLevel'' = Inr dl
                   \<and> getProp (items ! i) ''options'' = Inr os
                   \<and> cards ! i =
                       \<lparr>question = orElse q (JStr []), answer = orElse a (JStr []),
                        questionType = orElse t (JStr ''short_answer''),
                        difficultyLevel =
                          orElse dl (JStr (defaultTo ''intermediate'' (o_difficultyLevel opts))),
                        options = orElse os JUndefined\<rparr>"
    by (elim exE conjE)
  have "\<forall>i < length items.
               (\<exists>os. getProp (items ! i) ''options'' = Inr os
                    \<and> options (cards ! i) = (if truthy os then os else JUndefined))
             \<and> (\<forall>kvs. items ! i = JObj kvs \<and> map_of kvs ''options'' = None
                    \<longrightarrow> options (cards ! i) = JUndefined)"
  proof (intro allI impI)
    fix i assume "i < length items"
    with each obtain q a t dl os where
      g: "getProp (items ! i) ''options'' = Inr os"
      and c: "cards ! i =
                \<lparr>question = orElse q (JStr []), answer = orElse a (JStr []),
                 questionType = orElse t (JStr ''short_answer''),
                 difficultyLevel =
                   orElse dl (JStr (defaultTo ''intermediate'' (o_difficultyLevel opts))),
                 options = orElse os JUndefined\<rparr>"
      by (elim allE impE exE conjE)
    from c have o: "options (cards ! i) = (if truthy os then os else JUndefined)"
      by (simp add: orElse_def)
    have absent: "\<forall>kvs. items ! i = JObj kvs \<and> map_of kvs ''options'' = None
                    \<longrightarrow> options (cards ! i) = JUndefined"
    proof (intro allI impI)
      fix kvs assume k: "items ! i = JObj kvs \<and> map_of kvs ''options'' = None"
      with g have "os = JUndefined" using getProp_absent [of kvs os] by simp
      with o show "options (cards ! i) = JUndefined" by simp
    qed
    from g o have "\<exists>os. getProp (items ! i) ''options'' = Inr os
                    \<and> options (cards ! i) = (if truthy os then os else JUndefined)"
      by (intro exI conjI)
    with absent show "(\<exists>os. getProp (items ! i) ''options'' = Inr os
                    \<and> options (cards ! i) = (if truthy os then os else JUndefined))
             \<and> (\<forall>kvs. items ! i = JObj kvs \<and> map_of kvs ''options'' = None
                    \<longrightarrow> options (cards ! i) = JUndefined)"
      by (intro conjI)
  qed
  with t p len show ?thesis by (intro exI conjI)
qed

text \<open>
  C7, as stated, fails in both directions: a \<open>multiple_choice\<close> card that the
  provider sent without options is returned without options, and a \<open>true_false\<close>
  card that the provider sent with two options is returned with them.
\<close>

theorem generateFlashcards_options_unchecked:
  "fst (generateFlashcards (parseAs mcDoc mcValue) (respond mcDoc) plainOptions ())
     = Inr [\<lparr>question = JStr [], answer = JStr [], questionType = JStr ''multiple_choice'',
             difficultyLevel = JStr ''intermediate'', options = JUndefined\<rparr>]
   \<and> fst (generateFlashcards (parseAs twoOptionsDoc twoOptionsValue) (respond twoOptionsDoc)
            plainOptions ())
     = Inr [\<lparr>question = JStr [], answer = JStr [], questionType = JStr ''true_false'',
             difficultyLevel = JStr ''intermediate'',
             options = JArr [JStr ''True'', JStr ''False'']\<rparr>]"
  by code_simp

lemma twoOptions_run:
  "fst (generateFlashcards (parseAs twoOptionsDoc twoOptionsValue) (respond twoOptionsDoc)
            plainOptions ())
     = Inr [\<lparr>question = JStr [], answer = JStr [], questionType = JStr ''true_false'',
             difficultyLevel = JStr ''intermediate'',
             options = JArr [JStr ''True'', JStr ''False'']\<rparr>]"
  by code_simp

theorem generateFlashcards_options_witness:
  "\<exists>text items.
      fst (respond twoOptionsDoc (flashcardsPrompt plainOptions) ()) = Inr text
    \<and> parseAs twoOptionsDoc twoOptionsValue (stripCodeFence text) = Inr (JArr items)
    \<and> length [\<lparr>question = JStr [], answer = JStr [], questionType = JStr ''true_false'',
                difficultyLevel = JStr ''intermediate'',
                options = JArr [JStr ''True'', JStr ''False'']\<rparr>] = length items"
proof -
  from generateFlashcards_options [OF twoOptions_run] obtain reply items where
    "fst (respond twoOptionsDoc (flashcardsPrompt plainOptions) ()) = Inr reply"
    "parseAs twoOptionsDoc twoOptionsValue (stripCodeFence reply) = Inr (JArr items)"
    "length [\<lparr>question = JStr [], answer = JStr [], questionType = JStr ''true_false'',
                difficultyLevel = JStr ''intermediate'',
                options = JArr [JStr ''True'', JStr ''False'']\<rparr>] = length items"
    by (elim exE conjE)
  then show ?thesis by (intro exI conjI)
qed

subsection \<open>Study-module orchestration\<close>





















subsection \<open>Provider selection\<close>

lemma providerTag_inj: "providerTag a = providerTag b \<Longrightarrow> a = b"
  by (cases a; cases b) simp_all

lemma find_valid_tag: "find (\<lambda>v. providerTag v = providerTag p) validProviders = Some p"
  by (cases p) (simp_all add: validProviders_def)

lemma find_invalid_tag:
  "s \<notin> providerTag ` set validProviders \<Longrightarrow> find (\<lambda>v. providerTag v = s) validProviders = None"
  by (auto simp: find_None_iff)

lemma providerTag_nonempty: "providerTag p \<noteq> []"
  by (cases p) simp_all

text \<open>
  C9. A missing \<open>AI_PROVIDER\<close>, or one whose lower-cased value is none of the four tags,
  makes \<open>getAIProvider\<close> write a warning and return the Google-API-key provider; a
  value that lower-cases to the tag of \<open>p\<close> makes it return \<open>p\<close> without a warning.
  \<open>getAIService\<close>, when no instance is cached, returns what the getter of the selected
  provider returns: it throws only when that getter does.
\<close>

theorem getAIProvider_selection:
  "(AI_PROVIDER = None \<or>
      (\<exists>v. AI_PROVIDER = Some v \<and> toLowerCase v \<notin> providerTag ` set validProviders)
    \<longrightarrow> fst (getAIProvider AI_PROVIDER) = GOOGLE_API_KEY
        \<and> (\<exists>m ms. snd (getAIProvider AI_PROVIDER) = ConsoleWarn m # ms))
   \<and> (\<forall>v p. AI_PROVIDER = Some v \<and> toLowerCase v = providerTag p
        \<longrightarrow> getAIProvider AI_PROVIDER = (p, []))
   \<and> fst (getAIService getService AI_PROVIDER None)
        = getService (fst (getAIProvider AI_PROVIDER))"
proof (intro conjI impI allI)
  assume "AI_PROVIDER = None \<or>
      (\<exists>v. AI_PROVIDER = Some v \<and> toLowerCase v \<notin> providerTag ` set validProviders)"
  then have sel: "(case map_option toLowerCase AI_PROVIDER of None \<Rightarrow> None
            | Some p \<Rightarrow> if p = [] then None
                        else find (\<lambda>v. providerTag v = p) validProviders) = None"
    by (auto simp: find_invalid_tag)
  show "fst (getAIProvider AI_PROVIDER) = GOOGLE_API_KEY"
    unfolding getAIProvider_def Let_def sel by simp
  show "\<exists>m ms. snd (getAIProvider AI_PROVIDER) = ConsoleWarn m # ms"
    unfolding getAIProvider_def Let_def sel by simp
next
  fix v p
  assume "AI_PROVIDER = Some v \<and> toLowerCase v = providerTag p"
  then show "getAIProvider AI_PROVIDER = (p, [])"
    by (simp add: getAIProvider_def find_valid_tag providerTag_nonempty)
next
  show "fst (getAIService getService AI_PROVIDER None)
        = getService (fst (getAIProvider AI_PROVIDER))"
    by (simp add: getAIService_def Let_def split: prod.splits sum.splits)
qed

theorem getAIProvider_selection_witness:
  "fst (getAIProvider (Some ''bogus'')) = GOOGLE_API_KEY
   \<and> (\<exists>m ms. snd (getAIProvider (Some ''bogus'')) = ConsoleWarn m # ms)
   \<and> getAIProvider (Some ''OpenRouter'') = (OPENROUTER, [])
   \<and> fst (getAIService (\<lambda>p. Inr p) (Some ''bogus'') None) = Inr GOOGLE_API_KEY"
proof -
  have bogus: "toLowerCase ''bogus'' \<notin> providerTag ` set validProviders"
    by (simp add: toLowerCase_def lowerChar_def upperCaseLetters_def lowerCaseLetters_def validProviders_def)
  have router: "toLowerCase ''OpenRouter'' = providerTag OPENROUTER"
    by (simp add: toLowerCase_def lowerChar_def upperCaseLetters_def lowerCaseLetters_def)
  note sel1 = getAIProvider_selection [of "Some ''bogus''" "\<lambda>p. Inr p"]
  note sel2 = getAIProvider_selection [of "Some ''OpenRouter''" "\<lambda>p. Inr p"]
  from sel1 bogus have a: "fst (getAIProvider (Some ''bogus'')) = GOOGLE_API_KEY
      \<and> (\<exists>m ms. snd (getAIProvider (Some ''bogus'')) = ConsoleWarn m # ms)"
    by blast
  from sel2 router have b: "getAIProvider (Some ''OpenRouter'') = (OPENROUTER, [])"
    by blast
  from sel1 a have c: "fst (getAIService (\<lambda>p. Inr p) (Some ''bogus'') None) = Inr GOOGLE_API_KEY"
    by simp
  from a b c show ?thesis by blast
qed

subsection \<open>Education-level persona\<close>

text \<open>
  C10. For the key \<open>constructor\<close>, which is outside the five education levels, the
  lookup \<open>prompts[educationLevel]\<close> finds the member inherited from
  \<open>Object.prototype\<close>, which is truthy, so \<open>getEducationPrompt\<close> returns it and not
  the \<open>high_school\<close> entry.
\<close>

theorem getEducationPrompt_inherited_key:
  "getEducationPrompt ''constructor'' = JNative ''constructor''
   \<and> getEducationPrompt ''constructor'' \<noteq> JStr prompt_high_school"
  by (simp add: getEducationPrompt_def objectGet_def prompts_def orElse_def
        objectPrototypeKeys_def)

subsection \<open>The AI flashcard routes\<close>

lemma fold_flashcard_create:
  "fold (flashcard_create columnDefault now) ds db
     = db\<lparr>flashcard := flashcard db @
            map (\<lambda>d. \<lparr>fc_data = d,
                       fc_isAIGenerated =
                         (case d_isAIGenerated d of None \<Rightarrow> columnDefault | Some b \<Rightarrow> b),
                       fc_createdAt = now\<rparr>) ds\<rparr>"
  by (induction ds arbitrary: db) (simp_all add: flashcard_create_def)

lemma module_isAIGenerated_flashcard_update:
  "module_isAIGenerated (db\<lparr>flashcard := rows\<rparr>) c = module_isAIGenerated db c"
  by (simp add: module_isAIGenerated_def cong: option.case_cong)

lemma module_isAIGenerated_no_module:
  "d_moduleId (fc_data c) = None \<Longrightarrow> \<not> module_isAIGenerated db c"
  by (simp add: module_isAIGenerated_def)

lemma flashcard_count_unflagged:
  assumes "\<forall>r\<in>set new. \<not> fc_isAIGenerated r \<and> d_moduleId (fc_data r) = None"
  shows "flashcard_count (db\<lparr>flashcard := flashcard db @ new\<rparr>) userId gte
           = flashcard_count db userId gte"
proof -
  from assms have "filter (\<lambda>c. d_userId (fc_data c) = userId \<and> gte \<le> fc_createdAt c
              \<and> (fc_isAIGenerated c \<or> module_isAIGenerated db c)) new = []"
    by (simp add: filter_empty_conv module_isAIGenerated_no_module)
  then show ?thesis
    by (simp add: flashcard_count_def module_isAIGenerated_flashcard_update)
qed

lemma saveAll_effect:
  "\<exists>status new.
      (\<forall>db. saveAll accepts columnDefault now (map (cardData userId s d e) cards) db
               = (status, db\<lparr>flashcard := flashcard db @ new\<rparr>))
    \<and> (\<forall>r\<in>set new. d_isAIGenerated (fc_data r) = None \<and> d_moduleId (fc_data r) = None
                      \<and> fc_isAIGenerated r = columnDefault)"
  unfolding saveAll_def fold_flashcard_create
  by (intro exI conjI allI refl) (auto simp: cardData_def)

lemma rejected_effect:
  "\<exists>status new.
      (\<forall>db. (c, db) = (status, db\<lparr>flashcard := flashcard db @ new\<rparr>))
    \<and> (\<forall>r\<in>set new. P r)"
  by (rule exI [of _ c], rule exI [of _ "[]"]) simp

lemma postGenerate_not_string:
  assumes "\<not> (\<exists>s. b_content body = JStr s)"
  shows "postGenerate generate accepts columnDefault now userId body db = (400, db)"
  using assms by (cases "b_content body") (simp_all add: postGenerate_def)

lemma postGenerate_effect:
  "\<exists>status new.
      (\<forall>db. postGenerate generate accepts columnDefault now userId body db
               = (status, db\<lparr>flashcard := flashcard db @ new\<rparr>))
    \<and> (\<forall>r\<in>set new. d_isAIGenerated (fc_data r) = None \<and> d_moduleId (fc_data r) = None
                      \<and> fc_isAIGenerated r = columnDefault)"
proof (cases "\<exists>s. b_content body = JStr s")
  case False
  then have eq: "\<And>db. postGenerate generate accepts columnDefault now userId body db = (400, db)"
    by (simp add: postGenerate_not_string)
  show ?thesis unfolding eq by (rule rejected_effect)
next
  case True
  then obtain content where JStr: "b_content body = JStr content" by (elim exE)
  let ?opts = "\<lparr>o_content = trim content,
                 o_subject = orUndefined (b_subject body),
                 o_educationLevel = orUndefined (b_educationLevel body),
                 o_difficultyLevel = orUndefined (b_difficultyLevel body),
                 o_numberOfCards = Some (Fin (numberOr 5 (b_numberOfCards body))),
                 o_questionTypes = b_questionTypes body\<rparr>"
  show ?thesis
  proof (cases "content = [] \<or> trim content = [] \<or> 50000 < length content")
    case True
    with JStr have eq: "\<And>db. postGenerate generate accepts columnDefault now userId body db = (400, db)"
      unfolding postGenerate_def by auto
    show ?thesis unfolding eq by (rule rejected_effect)
  next
    case False
    show ?thesis
    proof (cases "generate ?opts")
      case (Inl err)
      with JStr False
      have eq: "\<And>db. postGenerate generate accepts columnDefault now userId body db = (500, db)"
        unfolding postGenerate_def Let_def by simp
      show ?thesis unfolding eq by (rule rejected_effect)
    next
      case (Inr cards)
      with JStr False
      have eq: "\<And>db. postGenerate generate accepts columnDefault now userId body db
                  = saveAll accepts columnDefault now
                      (map (cardData userId (o_subject ?opts) (o_difficultyLevel ?opts)
                              (o_educationLevel ?opts)) cards) db"
        unfolding postGenerate_def Let_def by simp
      show ?thesis unfolding eq by (rule saveAll_effect)
    qed
  qed
qed

lemma postGenerateFromTopic_not_string:
  assumes "\<not> (\<exists>s. b_topic body = JStr s)"
  shows "postGenerateFromTopic generateFromTopic accepts columnDefault now userId body db = (400, db)"
  using assms by (cases "b_topic body") (simp_all add: postGenerateFromTopic_def)

lemma postGenerateFromTopic_effect:
  "\<exists>status new.
      (\<forall>db. postGenerateFromTopic generateFromTopic accepts columnDefault now userId body db
               = (status, db\<lparr>flashcard := flashcard db @ new\<rparr>))
    \<and> (\<forall>r\<in>set new. d_isAIGenerated (fc_data r) = None \<and> d_moduleId (fc_data r) = None
                      \<and> fc_isAIGenerated r = columnDefault)"
proof (cases "\<exists>s. b_topic body = JStr s")
  case False
  then have eq: "\<And>db. postGenerateFromTopic generateFromTopic accepts columnDefault now userId body db = (400, db)"
    by (simp add: postGenerateFromTopic_not_string)
  show ?thesis unfolding eq by (rule rejected_effect)
next
  case True
  then obtain topicText where JStr: "b_topic body = JStr topicText" by (elim exE)
  let ?opts = "\<lparr>t_topic = trim topicText,
                 t_subject = orUndefined (b_subject body),
                 t_educationLevel = orUndefined (b_educationLevel body),
                 t_difficultyLevel = orUndefined (b_difficultyLevel body),
                 t_numberOfCards = Some (Fin (numberOr 10 (b_numberOfCards body))),
                 t_questionTypes = b_questionTypes body\<rparr>"
  show ?thesis
  proof (cases "topicText = [] \<or> trim topicText = [] \<or> 200 < length topicText
                 \<or> (case b_numberOfCards body of
                       None \<Rightarrow> False
                     | Some n \<Rightarrow> n \<noteq> 0 \<and> (n < 1 \<or> 50 < n))")
    case True
    with JStr have eq: "\<And>db. postGenerateFromTopic generateFromTopic accepts columnDefault now userId body db = (400, db)"
      unfolding postGenerateFromTopic_def by auto
    show ?thesis unfolding eq by (rule rejected_effect)
  next
    case False
    show ?thesis
    proof (cases "generateFromTopic ?opts")
      case (Inl err)
      with JStr False
      have eq: "\<And>db. postGenerateFromTopic generateFromTopic accepts columnDefault now userId body db = (500, db)"
        unfolding postGenerateFromTopic_def Let_def by simp
      show ?thesis unfolding eq by (rule rejected_effect)
    next
      case (Inr cards)
      with JStr False
      have eq: "\<And>db. postGenerateFromTopic generateFromTopic accepts columnDefault now userId body db
                  = saveAll accepts columnDefault now
                      (map (cardData userId (t_subject ?opts) (t_difficultyLevel ?opts)
                              (t_educationLevel ?opts)) cards) db"
        unfolding postGenerateFromTopic_def Let_def by simp
      show ?thesis unfolding eq by (rule saveAll_effect)
    qed
  qed
qed

lemma trim_content: "trim ''ATP stores energy.'' = ''ATP stores energy.''"
  by code_simp

text \<open>
  C2. The rows that \<open>POST /generate\<close> and \<open>POST /generate-from-topic\<close> add to the
  flashcards are created without \<open>isAIGenerated\<close> and without \<open>moduleId\<close>. When the
  column does not default to true, they leave the count that \<open>checkAICardsDailyLimit\<close>
  uses, and with it the whole result of the check, unchanged for every user and every
  time. Neither handler checks the daily quota before it writes: the status and the
  rows added are the same in every store, whatever the user has used of the day's
  cards.
\<close>

theorem flashcards_ai_routes_outside_quota:
  assumes handler:
    "handler = postGenerate generate \<or> handler = postGenerateFromTopic generateFromTopic"
  shows "\<exists>status new.
      (\<forall>db. handler accepts columnDefault now userId body db
               = (status, db\<lparr>flashcard := flashcard db @ new\<rparr>)
           \<and> (\<not> columnDefault \<longrightarrow>
                (\<forall>u gte. flashcard_count (snd (handler accepts columnDefault now userId body db))
                            u gte
                          = flashcard_count db u gte)
              \<and> (\<forall>u t n. checkAICardsDailyLimit
                            (snd (handler accepts columnDefault now userId body db)) t u n
                          = checkAICardsDailyLimit db t u n)))
    \<and> (\<forall>r\<in>set new. d_isAIGenerated (fc_data r) = None \<and> d_moduleId (fc_data r) = None)"
proof -
  from handler postGenerate_effect [of generate accepts columnDefault now userId body]
    postGenerateFromTopic_effect [of generateFromTopic accepts columnDefault now userId body]
  obtain status new where
    run: "\<And>db. handler accepts columnDefault now userId body db
                 = (status, db\<lparr>flashcard := flashcard db @ new\<rparr>)"
    and rows: "\<forall>r\<in>set new. d_isAIGenerated (fc_data r) = None
                 \<and> d_moduleId (fc_data r) = None \<and> fc_isAIGenerated r = columnDefault"
    by (elim disjE exE conjE) simp_all
  have count: "flashcard_count (db\<lparr>flashcard := flashcard db @ new\<rparr>) u gte
                 = flashcard_count db u gte" if "\<not> columnDefault" for db u gte
    using that rows by (intro flashcard_count_unflagged) simp
  have limit: "checkAICardsDailyLimit (db\<lparr>flashcard := flashcard db @ new\<rparr>) t u n
                 = checkAICardsDailyLimit db t u n" if "\<not> columnDefault" for db t u n
    using that by (simp add: checkAICardsDailyLimit_def count)
  from rows have unflagged:
    "\<forall>r\<in>set new. d_isAIGenerated (fc_data r) = None \<and> d_moduleId (fc_data r) = None"
    by simp
  show ?thesis
  proof (rule exI [of _ status], rule exI [of _ new], intro conjI allI impI)
    fix db
    show "handler accepts columnDefault now userId body db
            = (status, db\<lparr>flashcard := flashcard db @ new\<rparr>)"
      by (rule run)
  next
    fix db u gte
    assume "\<not> columnDefault"
    then show "flashcard_count (snd (handler accepts columnDefault now userId body db)) u gte
                 = flashcard_count db u gte"
      unfolding run snd_conv by (rule count)
  next
    fix db u t n
    assume "\<not> columnDefault"
    then show "checkAICardsDailyLimit (snd (handler accepts columnDefault now userId body db))
                   t u n
                 = checkAICardsDailyLimit db t u n"
      unfolding run snd_conv by (rule limit)
  next
    show "\<forall>r\<in>set new. d_isAIGenerated (fc_data r) = None \<and> d_moduleId (fc_data r) = None"
      by (rule unflagged)
  qed
qed

text \<open>
  A user who has used up the day's 30 cards asks for 2 more from a text: the check
  would refuse, the handler answers 201 and stores both cards, and the count stays 30.
\<close>

theorem flashcards_ai_routes_outside_quota_witness:
  "fst (postGenerate twoCardService (\<lambda>d. True) False 1762174800000 ''u1'' contentBody
          exhaustedStore) = 201
   \<and> length (flashcard (snd (postGenerate twoCardService (\<lambda>d. True) False 1762174800000 ''u1''
                               contentBody exhaustedStore))) = 32
   \<and> \<not> allowed (checkAICardsDailyLimit exhaustedStore 1762174800000 ''u1'' 2)
   \<and> currentCount (checkAICardsDailyLimit
                     (snd (postGenerate twoCardService (\<lambda>d. True) False 1762174800000 ''u1''
                             contentBody exhaustedStore))
                     1762174800000 ''u1'' 2) = 30"
proof -
  from flashcards_ai_routes_outside_quota
         [where handler = "postGenerate twoCardService" and generate = twoCardService
            and accepts = "\<lambda>d. True" and columnDefault = False and now = 1762174800000
            and userId = "''u1''" and body = contentBody,
          OF disjI1 [OF refl]]
  obtain status new where
    effect: "\<forall>db. postGenerate twoCardService (\<lambda>d. True) False 1762174800000 ''u1''
                    contentBody db
                  = (status, db\<lparr>flashcard := flashcard db @ new\<rparr>)
                \<and> (\<not> False \<longrightarrow>
                     (\<forall>u gte. flashcard_count
                                 (snd (postGenerate twoCardService (\<lambda>d. True) False
                                         1762174800000 ''u1'' contentBody db)) u gte
                               = flashcard_count db u gte)
                   \<and> (\<forall>u t n. checkAICardsDailyLimit
                                 (snd (postGenerate twoCardService (\<lambda>d. True) False
                                         1762174800000 ''u1'' contentBody db)) t u n
                               = checkAICardsDailyLimit db t u n))"
    by (elim exE conjE)
  have flag: "\<not> False" by simp
  note unchanged = conjunct2 [OF mp [OF conjunct2 [OF spec [OF effect]] flag]]
  have same: "checkAICardsDailyLimit
                (snd (postGenerate twoCardService (\<lambda>d. True) False 1762174800000 ''u1''
                        contentBody exhaustedStore))
                1762174800000 ''u1'' 2
              = checkAICardsDailyLimit exhaustedStore 1762174800000 ''u1'' 2"
    by (rule unchanged [rule_format])
  have before: "\<not> allowed (checkAICardsDailyLimit exhaustedStore 1762174800000 ''u1'' 2)
                \<and> currentCount (checkAICardsDailyLimit exhaustedStore 1762174800000 ''u1'' 2)
                    = 30"
    by (simp add: checkAICardsDailyLimit_def Let_def getStartOfTodayUTC_midnight
          flashcard_count_def exhaustedStore_def aiRow_def Day_def msPerDay_def AI_CARDS_def)
  have run: "fst (postGenerate twoCardService (\<lambda>d. True) False 1762174800000 ''u1'' contentBody
                    exhaustedStore) = 201
             \<and> length (flashcard (snd (postGenerate twoCardService (\<lambda>d. True) False
                                         1762174800000 ''u1'' contentBody exhaustedStore)))
                 = 32"
    by (simp add: postGenerate_def contentBody_def trim_content twoCardService_def saveAll_def
          flashcard_create_def exhaustedStore_def Let_def)
  from same before run show ?thesis by simp
qed

end
